theory Spec2Isabelle
  imports Complex_Main "HOL-Library.AList"
begin

section \<open>Values of the host language\<close>

text \<open>
  The repository is TypeScript running on a JavaScript engine. Objects created by the
  rendering engine (viewer, entities, primitives, DOM nodes) have identity; they are
  referred to by a handle. A value of type \<open>any\<close> that the store keeps is a primitive
  value or a reference. Numbers are modelled by reals: a finite double denotes itself,
  and the rounding of arithmetic is outside the model (no function embedded here
  depends on it); \<open>NaN\<close> and the infinities are not represented.
\<close>

type_synonym handle = nat

datatype jsany =
    Undefined
  | Null
  | Bool bool
  | Num real
  | Str string
  | Ref handle

text \<open>The truthiness test of \<open>if (v)\<close> and \<open>!v\<close>.\<close>

fun truthy :: "jsany \<Rightarrow> bool" where
  "truthy Undefined = False"
| "truthy Null = False"
| "truthy (Bool b) = b"
| "truthy (Num n) = (n \<noteq> 0)"
| "truthy (Str s) = (s \<noteq> [])"
| "truthy (Ref h) = True"

section \<open>The map store (src/stores/modules/mapStore.ts)\<close>

datatype MapLoadStatus = UNLOADED | LOADING | LOADED | FAILED

text \<open>
  Calls that the store issues on engine objects it only holds a reference to
  (\<open>graphicLayer.value.clear()\<close>, \<open>map.value.removeLayer(layer)\<close>). Their effect lives
  in the engine object; the store records that the call was made.
\<close>

datatype engine_call =
    LayerClear jsany
  | MapRemoveLayer handle jsany

text \<open>
  The closure state of \<open>useMapStore\<close>. \<open>mapRef\<close> is the \<open>map\<close> ref of the source:
  \<open>null\<close>, or the viewer instance handed to \<open>setMap\<close>. The two \<open>Map<string, any>\<close>
  objects are partial maps from keys to values. In the definitions below \<open>ident\<close>
  stands for the parameter \<open>id\<close> of the source.
\<close>

record mapStore =
  mapRef :: "handle option"
  isMapLoaded :: MapLoadStatus
  graphicLayer :: jsany
  droneTrails :: "string \<rightharpoonup> jsany"
  isLayerInitialized :: bool
  graphicMap :: "string \<rightharpoonup> jsany"
  trailTime :: real
  engineCalls :: "engine_call list"

definition useMapStore :: mapStore where
  "useMapStore =
     \<lparr> mapRef = None, isMapLoaded = UNLOADED, graphicLayer = Null,
       droneTrails = Map.empty, isLayerInitialized = False,
       graphicMap = Map.empty, trailTime = 30, engineCalls = [] \<rparr>"

definition setMapLoadSta :: "MapLoadStatus \<Rightarrow> 'a mapStore_scheme \<Rightarrow> 'a mapStore_scheme" where
  "setMapLoadSta status s = s\<lparr>isMapLoaded := status\<rparr>"

definition resetMapLoadSta :: "'a mapStore_scheme \<Rightarrow> 'a mapStore_scheme" where
  "resetMapLoadSta s = s\<lparr>isMapLoaded := UNLOADED\<rparr>"

definition setMap :: "handle option \<Rightarrow> 'a mapStore_scheme \<Rightarrow> 'a mapStore_scheme" where
  "setMap mapInstance s = s\<lparr>mapRef := mapInstance\<rparr>"

definition getMap :: "'a mapStore_scheme \<Rightarrow> handle option" where
  "getMap s = mapRef s"

definition setTrailTime :: "real \<Rightarrow> 'a mapStore_scheme \<Rightarrow> 'a mapStore_scheme" where
  "setTrailTime time s = s\<lparr>trailTime := time\<rparr>"

definition getTrailTime :: "'a mapStore_scheme \<Rightarrow> real" where
  "getTrailTime s = trailTime s"

text \<open>The body of \<open>getOrCreateGraphicLayer\<close> is commented out: it returns \<open>undefined\<close>.\<close>

definition getOrCreateGraphicLayer :: "'a mapStore_scheme \<Rightarrow> jsany" where
  "getOrCreateGraphicLayer s = Undefined"

definition setGraphicMap :: "string \<Rightarrow> jsany \<Rightarrow> 'a mapStore_scheme \<Rightarrow> 'a mapStore_scheme" where
  "setGraphicMap ident graphic s = s\<lparr>graphicMap := (graphicMap s)(ident \<mapsto> graphic)\<rparr>"

text \<open>\<open>Map.prototype.get\<close> answers \<open>undefined\<close> for a key that is absent.\<close>

definition getGraphicMap :: "'a mapStore_scheme \<Rightarrow> string \<Rightarrow> jsany" where
  "getGraphicMap s ident = (case graphicMap s ident of None \<Rightarrow> Undefined | Some g \<Rightarrow> g)"

definition hasGraphicMap :: "'a mapStore_scheme \<Rightarrow> string \<Rightarrow> bool" where
  "hasGraphicMap s ident = (graphicMap s ident \<noteq> None)"

definition removeGraphicMap :: "string \<Rightarrow> 'a mapStore_scheme \<Rightarrow> 'a mapStore_scheme" where
  "removeGraphicMap ident s = s\<lparr>graphicMap := (graphicMap s)(ident := None)\<rparr>"

definition trailKey :: "string \<Rightarrow> string" where
  "trailKey droneId = droneId @ ''_trail''"

definition setDroneTrail :: "string \<Rightarrow> jsany \<Rightarrow> 'a mapStore_scheme \<Rightarrow> 'a mapStore_scheme" where
  "setDroneTrail droneId trailData s =
     s\<lparr>droneTrails := (droneTrails s)(trailKey droneId \<mapsto> trailData)\<rparr>"

definition getDroneTrail :: "'a mapStore_scheme \<Rightarrow> string \<Rightarrow> jsany" where
  "getDroneTrail s droneId =
     (case droneTrails s (trailKey droneId) of None \<Rightarrow> Undefined | Some t \<Rightarrow> t)"

definition hasDroneTrail :: "'a mapStore_scheme \<Rightarrow> string \<Rightarrow> bool" where
  "hasDroneTrail s droneId = (droneTrails s (trailKey droneId) \<noteq> None)"

definition clearDroneTrail :: "string \<Rightarrow> 'a mapStore_scheme \<Rightarrow> 'a mapStore_scheme" where
  "clearDroneTrail droneId s =
     s\<lparr>droneTrails := (droneTrails s)(trailKey droneId := None)\<rparr>"

definition endsWith :: "string \<Rightarrow> string \<Rightarrow> bool" where
  "endsWith key suffix =
     (length suffix \<le> length key \<and> drop (length key - length suffix) key = suffix)"

text \<open>
  \<open>droneTrails.forEach\<close> visits every key once and deletes those ending in
  \<open>_trail\<close>; what remains are the other keys.
\<close>

definition clearAllDroneTrails :: "'a mapStore_scheme \<Rightarrow> 'a mapStore_scheme" where
  "clearAllDroneTrails s =
     s\<lparr>droneTrails := (\<lambda>key. if endsWith key ''_trail'' then None else droneTrails s key)\<rparr>"

definition clearLayer :: "'a mapStore_scheme \<Rightarrow> 'a mapStore_scheme" where
  "clearLayer s =
     (if truthy (graphicLayer s)
      then s\<lparr>engineCalls := engineCalls s @ [LayerClear (graphicLayer s)]\<rparr>
      else s)"

definition resetLayer :: "'a mapStore_scheme \<Rightarrow> 'a mapStore_scheme" where
  "resetLayer s =
     (let s1 = (case mapRef s of
                  Some m \<Rightarrow>
                    if truthy (graphicLayer s)
                    then s\<lparr>engineCalls := engineCalls s @ [MapRemoveLayer m (graphicLayer s)]\<rparr>
                    else s
                | None \<Rightarrow> s)
      in s1\<lparr>graphicLayer := Null, isLayerInitialized := False\<rparr>)"

text \<open>
  Every function the store returns, as an operation on its state. The readers
  (\<open>getMap\<close>, \<open>getTrailTime\<close>, \<open>getGraphicMap\<close>, \<open>hasGraphicMap\<close>, \<open>getDroneTrail\<close>,
  \<open>hasDroneTrail\<close>, \<open>getOrCreateGraphicLayer\<close>) leave the state as it is.
\<close>

datatype store_op =
    SetMapLoadSta MapLoadStatus
  | ResetMapLoadSta
  | SetMap "handle option"
  | GetMap
  | SetTrailTime real
  | GetTrailTime
  | GetOrCreateGraphicLayer
  | SetGraphicMap string jsany
  | GetGraphicMap string
  | HasGraphicMap string
  | RemoveGraphicMap string
  | SetDroneTrail string jsany
  | GetDroneTrail string
  | HasDroneTrail string
  | ClearDroneTrail string
  | ClearAllDroneTrails
  | ClearLayer
  | ResetLayer

fun store_step :: "store_op \<Rightarrow> 'a mapStore_scheme \<Rightarrow> 'a mapStore_scheme" where
  "store_step (SetMapLoadSta status) s = setMapLoadSta status s"
| "store_step ResetMapLoadSta s = resetMapLoadSta s"
| "store_step (SetMap m) s = setMap m s"
| "store_step GetMap s = s"
| "store_step (SetTrailTime t) s = setTrailTime t s"
| "store_step GetTrailTime s = s"
| "store_step GetOrCreateGraphicLayer s = s"
| "store_step (SetGraphicMap ident g) s = setGraphicMap ident g s"
| "store_step (GetGraphicMap ident) s = s"
| "store_step (HasGraphicMap ident) s = s"
| "store_step (RemoveGraphicMap ident) s = removeGraphicMap ident s"
| "store_step (SetDroneTrail d t) s = setDroneTrail d t s"
| "store_step (GetDroneTrail d) s = s"
| "store_step (HasDroneTrail d) s = s"
| "store_step (ClearDroneTrail d) s = clearDroneTrail d s"
| "store_step ClearAllDroneTrails s = clearAllDroneTrails s"
| "store_step ClearLayer s = clearLayer s"
| "store_step ResetLayer s = resetLayer s"

fun store_run :: "store_op list \<Rightarrow> 'a mapStore_scheme \<Rightarrow> 'a mapStore_scheme" where
  "store_run [] s = s"
| "store_run (oper # ops) s = store_run ops (store_step oper s)"

section \<open>The registry of graphic objects\<close>

lemma graphicMap_store_step:
  "graphicMap (store_step oper s) =
     (case oper of
        SetGraphicMap ident g \<Rightarrow> (graphicMap s)(ident \<mapsto> g)
      | RemoveGraphicMap ident \<Rightarrow> (graphicMap s)(ident := None)
      | _ \<Rightarrow> graphicMap s)"
  by (cases oper)
     (simp_all add: setMapLoadSta_def resetMapLoadSta_def setMap_def setTrailTime_def
        setGraphicMap_def removeGraphicMap_def setDroneTrail_def clearDroneTrail_def
        clearAllDroneTrails_def clearLayer_def resetLayer_def Let_def split: option.split)

lemma store_step_keeps_entry:
  "oper \<noteq> RemoveGraphicMap ident \<Longrightarrow> graphicMap s ident \<noteq> None \<Longrightarrow>
   graphicMap (store_step oper s) ident \<noteq> None"
  by (auto simp: graphicMap_store_step split: store_op.split)

lemma store_run_keeps_entry:
  "RemoveGraphicMap ident \<notin> set ops \<Longrightarrow> graphicMap s ident \<noteq> None \<Longrightarrow>
   graphicMap (store_run ops s) ident \<noteq> None"
proof (induction ops arbitrary: s)
  case Nil
  then show ?case by simp
next
  case (Cons oper ops)
  from Cons.prems have "oper \<noteq> RemoveGraphicMap ident" and "RemoveGraphicMap ident \<notin> set ops"
    by auto
  with Cons.prems(2) Cons.IH [of "store_step oper s"] show ?case
    by (simp add: store_step_keeps_entry)
qed

text \<open>
  C5. Right after \<open>setGraphicMap(id, g)\<close>, \<open>getGraphicMap(id)\<close> is \<open>g\<close> and
  \<open>hasGraphicMap(id)\<close> is true; right after \<open>removeGraphicMap(id)\<close>,
  \<open>hasGraphicMap(id)\<close> is false and \<open>getGraphicMap(id)\<close> is \<open>undefined\<close>; and for any
  other identifier both operations leave \<open>get\<close> and \<open>has\<close> as they were.
\<close>

theorem registry_set_get_has_remove:
  "getGraphicMap (setGraphicMap ident g s) ident = g
   \<and> hasGraphicMap (setGraphicMap ident g s) ident
   \<and> \<not> hasGraphicMap (removeGraphicMap ident s) ident
   \<and> getGraphicMap (removeGraphicMap ident s) ident = Undefined
   \<and> (other \<noteq> ident \<longrightarrow>
        getGraphicMap (setGraphicMap ident g s) other = getGraphicMap s other
      \<and> hasGraphicMap (setGraphicMap ident g s) other = hasGraphicMap s other
      \<and> getGraphicMap (removeGraphicMap ident s) other = getGraphicMap s other
      \<and> hasGraphicMap (removeGraphicMap ident s) other = hasGraphicMap s other)"
  by (simp add: getGraphicMap_def hasGraphicMap_def setGraphicMap_def removeGraphicMap_def)

theorem registry_set_get_has_remove_witness:
  "getGraphicMap (setGraphicMap ''p1'' (Ref 7) (setGraphicMap ''p2'' (Ref 9) useMapStore)) ''p1'' = Ref 7
   \<and> \<not> hasGraphicMap (removeGraphicMap ''p1'' (setGraphicMap ''p2'' (Ref 9) useMapStore)) ''p1''
   \<and> ''p2'' \<noteq> ''p1''
   \<and> getGraphicMap (setGraphicMap ''p1'' (Ref 7) (setGraphicMap ''p2'' (Ref 9) useMapStore)) ''p2'' = Ref 9
   \<and> hasGraphicMap (removeGraphicMap ''p1'' (setGraphicMap ''p2'' (Ref 9) useMapStore)) ''p2''"
proof -
  have ne: "''p2'' \<noteq> ''p1''" by simp
  have p2: "getGraphicMap (setGraphicMap ''p2'' (Ref 9) useMapStore) ''p2'' = Ref 9"
    and h2: "hasGraphicMap (setGraphicMap ''p2'' (Ref 9) useMapStore) ''p2''"
    by (simp_all add: getGraphicMap_def hasGraphicMap_def setGraphicMap_def)
  from registry_set_get_has_remove
         [of "''p1''" "Ref 7" "setGraphicMap ''p2'' (Ref 9) useMapStore" "''p2''"]
       ne p2 h2
  show ?thesis by simp
qed

text \<open>
  C3, as the code has it. The store returns four functions on the registry:
  \<open>setGraphicMap\<close>, \<open>getGraphicMap\<close>, \<open>hasGraphicMap\<close> and \<open>removeGraphicMap\<close>. There is
  no eviction: along every sequence of store operations that does not call
  \<open>removeGraphicMap\<close> on an identifier, the identifier stays present once it has been
  inserted; \<open>removeGraphicMap\<close> is the one operation that takes an entry out.
\<close>

theorem registry_entry_persists_unless_removed:
  "RemoveGraphicMap ident \<notin> set ops \<Longrightarrow>
   hasGraphicMap (store_run ops (setGraphicMap ident g s)) ident"
proof -
  assume "RemoveGraphicMap ident \<notin> set ops"
  moreover have "graphicMap (setGraphicMap ident g s) ident \<noteq> None"
    by (simp add: setGraphicMap_def)
  ultimately show ?thesis
    unfolding hasGraphicMap_def by (rule store_run_keeps_entry)
qed

theorem registry_entry_persists_unless_removed_witness:
  "RemoveGraphicMap ''p1'' \<notin> set [SetMap (Some 1), RemoveGraphicMap ''p2'', ClearAllDroneTrails, ResetLayer]
   \<and> hasGraphicMap
        (store_run [SetMap (Some 1), RemoveGraphicMap ''p2'', ClearAllDroneTrails, ResetLayer]
           (setGraphicMap ''p1'' (Ref 7) useMapStore)) ''p1''"
proof -
  have h: "RemoveGraphicMap ''p1'' \<notin> set [SetMap (Some 1), RemoveGraphicMap ''p2'', ClearAllDroneTrails, ResetLayer]"
    by simp
  from h registry_entry_persists_unless_removed [OF h, of "Ref 7" useMapStore]
  show ?thesis by blast
qed

text \<open>
  The claim as the specification words it fails: an identifier inserted with
  \<open>setGraphicMap\<close> is gone after \<open>removeGraphicMap\<close>.
\<close>

theorem registry_entry_removed_counterexample:
  "\<not> hasGraphicMap
       (store_run [RemoveGraphicMap ''p1''] (setGraphicMap ''p1'' (Ref 7) useMapStore)) ''p1''"
  by (simp add: hasGraphicMap_def setGraphicMap_def removeGraphicMap_def)

section \<open>Merging configuration objects (objectUtils.merge)\<close>

text \<open>
  The values \<open>merge\<close> works on: what a parsed JSON file or an object literal holds,
  and \<open>undefined\<close>. A plain object is the list of its own enumerable properties in the
  order \<open>Object.keys\<close> lists them (the keys that are array indices in ascending order,
  then the other keys in insertion order), read and written by key. An array is the list of
  its elements, where \<open>None\<close> is a missing element (a hole), and the list of the named
  properties it has been given. The model covers values that are trees (no object
  reachable along two paths, none shared between target and source), own properties only,
  keys that are distinct within one object, and keys that do not name a property inherited
  from \<open>Object.prototype\<close> or \<open>Array.prototype\<close>.
\<close>

datatype jsval =
    JUndefined
  | JNull
  | JBool bool
  | JNum real
  | JStr string
  | JArr "jsval option list" "(string \<times> jsval) list"
  | JObj "(string \<times> jsval) list"

text \<open>An array literal: every element present, no named property.\<close>

abbreviation JArray :: "jsval list \<Rightarrow> jsval" where
  "JArray xs \<equiv> JArr (map Some xs) []"

fun truthy_val :: "jsval \<Rightarrow> bool" where
  "truthy_val JUndefined = False"
| "truthy_val JNull = False"
| "truthy_val (JBool b) = b"
| "truthy_val (JNum n) = (n \<noteq> 0)"
| "truthy_val (JStr s) = (s \<noteq> [])"
| "truthy_val (JArr xs ps) = True"
| "truthy_val (JObj ps) = True"

text \<open>\<open>typeof v === 'object'\<close>: true of \<open>null\<close>, arrays and plain objects.\<close>

fun typeof_object :: "jsval \<Rightarrow> bool" where
  "typeof_object JNull = True"
| "typeof_object (JArr xs ps) = True"
| "typeof_object (JObj ps) = True"
| "typeof_object v = False"

fun isArray :: "jsval \<Rightarrow> bool" where
  "isArray (JArr xs ps) = True"
| "isArray v = False"

text \<open>
  \<open>String(index)\<close>, the property name under which an object keeps the element of an
  index: the decimal numeral without leading zeros.
\<close>

definition digit_char :: "nat \<Rightarrow> char" where
  "digit_char d = ''0123456789'' ! d"

function string_of_nat :: "nat \<Rightarrow> string" where
  "string_of_nat n =
     (if n < 10 then [digit_char n] else string_of_nat (n div 10) @ [digit_char (n mod 10)])"
  by pat_completeness auto
termination
  by (relation "measure (\<lambda>n. n)") auto

declare string_of_nat.simps [simp del]

text \<open>
  The array index a key names, if any: the key is the decimal numeral, without leading
  zeros, of a number below 4294967295. Any other key (\<open>'01'\<close>, \<open>'a'\<close>, \<open>'length'\<close>,
  the empty key) names no index.
\<close>

definition digit_value :: "char \<Rightarrow> nat option" where
  "digit_value c =
     map_of [(CHR ''0'', 0), (CHR ''1'', 1), (CHR ''2'', 2), (CHR ''3'', 3), (CHR ''4'', 4),
             (CHR ''5'', 5), (CHR ''6'', 6), (CHR ''7'', 7), (CHR ''8'', 8), (CHR ''9'', 9)] c"

fun digits_value :: "string \<Rightarrow> nat \<Rightarrow> nat option" where
  "digits_value [] acc = Some acc"
| "digits_value (c # cs) acc =
     (case digit_value c of None \<Rightarrow> None | Some d \<Rightarrow> digits_value cs (10 * acc + d))"

definition array_index :: "string \<Rightarrow> nat option" where
  "array_index key =
     (case digits_value key 0 of
        None \<Rightarrow> None
      | Some n \<Rightarrow> if string_of_nat n = key \<and> n < 4294967295 then Some n else None)"

text \<open>
  \<open>obj[key]\<close> on the properties of an object: \<open>undefined\<close> when the key is absent. A
  write replaces the value of a key that is there; a new key goes where \<open>Object.keys\<close>
  lists it: an array index after the smaller indices, any other key at the end.
\<close>

definition prop_get :: "(string \<times> jsval) list \<Rightarrow> string \<Rightarrow> jsval" where
  "prop_get ps key = (case map_of ps key of None \<Rightarrow> JUndefined | Some v \<Rightarrow> v)"

fun insert_prop :: "string \<Rightarrow> jsval \<Rightarrow> (string \<times> jsval) list \<Rightarrow> (string \<times> jsval) list" where
  "insert_prop key v [] = [(key, v)]"
| "insert_prop key v (p # ps) =
     (case array_index key of
        None \<Rightarrow> p # insert_prop key v ps
      | Some i \<Rightarrow>
          (case array_index (fst p) of
             None \<Rightarrow> (key, v) # p # ps
           | Some j \<Rightarrow> if j < i then p # insert_prop key v ps else (key, v) # p # ps))"

definition prop_set :: "(string \<times> jsval) list \<Rightarrow> string \<Rightarrow> jsval \<Rightarrow> (string \<times> jsval) list" where
  "prop_set ps key v =
     (if map_of ps key = None then insert_prop key v ps else AList.update key v ps)"

text \<open>
  The elements of an array. Reading a hole or past the end gives \<open>undefined\<close>; writing
  past the end leaves holes in between; assigning the length cuts the array or extends it
  with holes.
\<close>

fun elem_get :: "jsval option list \<Rightarrow> nat \<Rightarrow> jsval" where
  "elem_get xs i =
     (if i < length xs then (case xs ! i of None \<Rightarrow> JUndefined | Some v \<Rightarrow> v) else JUndefined)"

fun elem_set :: "jsval option list \<Rightarrow> nat \<Rightarrow> jsval \<Rightarrow> jsval option list" where
  "elem_set xs i v =
     (if i < length xs then xs[i := Some v]
      else xs @ replicate (i - length xs) None @ [Some v])"

fun resize :: "jsval option list \<Rightarrow> nat \<Rightarrow> jsval option list" where
  "resize xs n = (if n \<le> length xs then take n xs else xs @ replicate (n - length xs) None)"

text \<open>
  The source writes the properties of a plain object into the target also when the target
  is an array. JavaScript then writes the element of a key that is an array index, attaches
  any other key to the array as a named property, and treats the key \<open>length\<close> as the
  length of the array: the value assigned is converted to a number, the array is resized
  when that number is an integer from 0 to 4294967295, and the assignment throws
  \<open>RangeError\<close> otherwise. \<open>undefined\<close> and a plain object convert to \<open>NaN\<close>, \<open>null\<close>
  and \<open>false\<close> to 0, \<open>true\<close> to 1. A string, and an array through its string form, is
  converted by the text-to-number conversion of the runtime, which is not part of the
  repository: it is the parameter \<open>toLength\<close>, which gives the length a string or an
  array stands for, or \<open>None\<close> when the assignment throws.
\<close>

datatype merge_error = InvalidArrayLength

fun array_length :: "(jsval \<Rightarrow> nat option) \<Rightarrow> jsval \<Rightarrow> nat option" where
  "array_length toLength JUndefined = None"
| "array_length toLength JNull = Some 0"
| "array_length toLength (JBool b) = Some (if b then 1 else 0)"
| "array_length toLength (JNum x) =
     (if 0 \<le> x \<and> x < 4294967296 \<and> x = of_int \<lfloor>x\<rfloor> then Some (nat \<lfloor>x\<rfloor>) else None)"
| "array_length toLength (JObj ps) = None"
| "array_length toLength v = toLength v"

text \<open>
  \<open>targetObj[key]\<close>, read: on a plain object its property, on an array the element of an
  index key, the length, or a named property. \<open>key_put\<close> is the write of a key other
  than the length of an array, \<open>key_set\<close> the assignment \<open>targetObj[key] = v\<close> in
  general.
\<close>

fun get_key :: "jsval \<Rightarrow> string \<Rightarrow> jsval" where
  "get_key (JObj ps) key = prop_get ps key"
| "get_key (JArr xs ps) key =
     (case array_index key of
        Some i \<Rightarrow> elem_get xs i
      | None \<Rightarrow> if key = ''length'' then JNum (real (length xs)) else prop_get ps key)"
| "get_key v key = JUndefined"

fun key_put :: "jsval \<Rightarrow> string \<Rightarrow> jsval \<Rightarrow> jsval" where
  "key_put (JObj ps) key v = JObj (prop_set ps key v)"
| "key_put (JArr xs ps) key v =
     (case array_index key of
        Some i \<Rightarrow> JArr (elem_set xs i v) ps
      | None \<Rightarrow> JArr xs (prop_set ps key v))"
| "key_put t key v = t"

fun key_set :: "(jsval \<Rightarrow> nat option) \<Rightarrow> jsval \<Rightarrow> string \<Rightarrow> jsval \<Rightarrow> merge_error + jsval" where
  "key_set toLength (JArr xs ps) key v =
     (if key = ''length''
      then (case array_length toLength v of
              None \<Rightarrow> Inl InvalidArrayLength
            | Some n \<Rightarrow> Inr (JArr (resize xs n) ps))
      else Inr (key_put (JArr xs ps) key v))"
| "key_set toLength t key v = Inr (key_put t key v)"

text \<open>
  \<open>targetArr[index]\<close>, read and written, on an array and on a plain object (where the
  index is the key \<open>String(index)\<close>).
\<close>

fun index_get :: "jsval \<Rightarrow> nat \<Rightarrow> jsval" where
  "index_get (JArr xs ps) i = elem_get xs i"
| "index_get (JObj ps) i = prop_get ps (string_of_nat i)"
| "index_get v i = JUndefined"

fun index_set :: "jsval \<Rightarrow> nat \<Rightarrow> jsval \<Rightarrow> jsval" where
  "index_set (JArr xs ps) i v = JArr (elem_set xs i v) ps"
| "index_set (JObj ps) i v = JObj (prop_set ps (string_of_nat i) v)"
| "index_set t i v = t"

text \<open>
  \<open>MergeOptions\<close>: both fields are optional. The parameter \<open>options\<close> defaults to
  \<open>{ deep: true, overwrite: true }\<close> and each field defaults to \<open>true\<close> when the given
  object leaves it out.
\<close>

record MergeOptions =
  deep_field :: "bool option"
  overwrite_field :: "bool option"

definition option_deep :: "MergeOptions option \<Rightarrow> bool" where
  "option_deep options =
     (case options of
        None \<Rightarrow> True
      | Some given \<Rightarrow> (case deep_field given of None \<Rightarrow> True | Some d \<Rightarrow> d))"

definition option_overwrite :: "MergeOptions option \<Rightarrow> bool" where
  "option_overwrite options =
     (case options of
        None \<Rightarrow> True
      | Some given \<Rightarrow> (case overwrite_field given of None \<Rightarrow> True | Some ow \<Rightarrow> ow))"

text \<open>
  \<open>merge\<close> of src/types/cesium.d.ts (\<open>objectUtils\<close>). \<open>mergeItems\<close> is the callback
  of \<open>sourceArr.forEach\<close>, which skips the holes of the source; \<open>mergeKeys\<close> is the
  callback of \<open>Object.keys(sourceObj).forEach\<close>; the target they thread is the object the
  source mutates in place. In the branch of a nested source object the source first reads
  \<open>targetValue = targetObj[key]\<close>, then assigns \<open>targetObj[key] = {}\<close> when that value is
  not an object, and then calls \<open>merge(targetValue, sourceValue, ...)\<close> on the value it had
  read, dropping what the call returns: when \<open>targetValue\<close> is an object the call mutates
  the object that \<open>targetObj[key]\<close> holds, otherwise it fills a fresh object that nothing
  refers to. A result \<open>Inr\<close> is the value the source returns; \<open>Inl\<close> is the exception
  of an assignment to the length of an array, which ends the call.
\<close>

fun merge :: "(jsval \<Rightarrow> nat option) \<Rightarrow> jsval \<Rightarrow> jsval \<Rightarrow> MergeOptions option
              \<Rightarrow> merge_error + jsval"
  and mergeItems :: "(jsval \<Rightarrow> nat option) \<Rightarrow> bool \<Rightarrow> bool \<Rightarrow> jsval \<Rightarrow> jsval option list \<Rightarrow> nat
                     \<Rightarrow> merge_error + jsval"
  and mergeKeys :: "(jsval \<Rightarrow> nat option) \<Rightarrow> bool \<Rightarrow> bool \<Rightarrow> jsval \<Rightarrow> (string \<times> jsval) list
                    \<Rightarrow> merge_error + jsval"
where
  "merge toLength target source options =
     (let deep = option_deep options; overwrite = option_overwrite options in
      if source = JNull \<or> \<not> typeof_object source then Inr target
      else
        let target1 = (if target = JNull \<or> \<not> typeof_object target
                       then (if isArray source then JArr [] [] else JObj [])
                       else target)
        in (case source of
              JArr sourceArr sourceProps \<Rightarrow>
                if \<not> deep then Inr (if overwrite then source else target1)
                else mergeItems toLength deep overwrite target1 sourceArr 0
            | JObj sourceObj \<Rightarrow> mergeKeys toLength deep overwrite target1 sourceObj
            | _ \<Rightarrow> Inr target))"
| "mergeItems toLength deep overwrite target [] index = Inr target"
| "mergeItems toLength deep overwrite target (None # rest) index =
     mergeItems toLength deep overwrite target rest (index + 1)"
| "mergeItems toLength deep overwrite target (Some item # rest) index =
     (if index_get target index = JUndefined
      then mergeItems toLength deep overwrite (index_set target index item) rest (index + 1)
      else (case merge toLength (index_get target index) item
                   (Some \<lparr>deep_field = Some deep, overwrite_field = Some overwrite\<rparr>) of
              Inl e \<Rightarrow> Inl e
            | Inr merged \<Rightarrow>
                mergeItems toLength deep overwrite (index_set target index merged) rest
                  (index + 1)))"
| "mergeKeys toLength deep overwrite target [] = Inr target"
| "mergeKeys toLength deep overwrite target ((key, sourceValue) # rest) =
     (let targetValue = get_key target key in
      if deep \<and> truthy_val sourceValue \<and> typeof_object sourceValue \<and> \<not> isArray sourceValue
      then
        if \<not> truthy_val targetValue \<or> \<not> typeof_object targetValue
        then (case key_set toLength target key (JObj []) of
                Inl e \<Rightarrow> Inl e
              | Inr target2 \<Rightarrow>
                  (case merge toLength targetValue sourceValue
                          (Some \<lparr>deep_field = Some deep, overwrite_field = Some overwrite\<rparr>) of
                     Inl e \<Rightarrow> Inl e
                   | Inr discarded \<Rightarrow> mergeKeys toLength deep overwrite target2 rest))
        else (case merge toLength targetValue sourceValue
                     (Some \<lparr>deep_field = Some deep, overwrite_field = Some overwrite\<rparr>) of
                Inl e \<Rightarrow> Inl e
              | Inr mutated \<Rightarrow>
                  mergeKeys toLength deep overwrite (key_put target key mutated) rest)
      else if overwrite \<or> targetValue = JUndefined
           then (case key_set toLength target key sourceValue of
                   Inl e \<Rightarrow> Inl e
                 | Inr target2 \<Rightarrow> mergeKeys toLength deep overwrite target2 rest)
           else mergeKeys toLength deep overwrite target rest)"

declare merge.simps [simp del]

text \<open>
  The own enumerable keys of a value (\<open>Object.keys\<close>): of an array the indices of its
  elements, holes left out, and its named properties, which are the keys that name neither
  an index nor the \<open>length\<close> (not enumerable). A primitive value has no keys here: the
  type of both parameters of \<open>merge\<close>, \<open>Record<string, any>\<close>, admits objects and arrays
  only. Presence of a key is membership in the keys.
\<close>

fun index_keys :: "jsval option list \<Rightarrow> string list" where
  "index_keys xs = map string_of_nat (filter (\<lambda>i. xs ! i \<noteq> None) [0..<length xs])"

fun own_keys :: "jsval \<Rightarrow> string list" where
  "own_keys (JObj ps) = map fst ps"
| "own_keys (JArr xs ps) =
     index_keys xs @ filter (\<lambda>key. array_index key = None \<and> key \<noteq> ''length'') (map fst ps)"
| "own_keys v = []"

definition has_key :: "jsval \<Rightarrow> string \<Rightarrow> bool" where
  "has_key v key = (key \<in> set (own_keys v))"

text \<open>
  A runtime for the concrete calls below, none of which assigns a string or an array to
  the length of an array.
\<close>

definition noTextLength :: "jsval \<Rightarrow> nat option" where
  "noTextLength v = None"

subsection \<open>Keys the source does not mention\<close>

lemma map_of_insert_prop_other:
  "key \<noteq> k \<Longrightarrow> map_of (insert_prop key v ps) k = map_of ps k"
  by (induction ps) (auto split: option.splits)

lemma prop_get_prop_set_other:
  "key \<noteq> k \<Longrightarrow> prop_get (prop_set ps key v) k = prop_get ps k"
  by (simp add: prop_get_def prop_set_def update_conv' map_of_insert_prop_other)

lemma elem_get_elem_set_other:
  "i \<noteq> j \<Longrightarrow> elem_get (elem_set xs i v) j = elem_get xs j"
  by (auto simp: nth_append nth_Cons' split: option.splits)

lemma array_index_canonical: "array_index key = Some i \<Longrightarrow> string_of_nat i = key"
  by (auto simp: array_index_def split: option.splits if_splits)

lemma last_string_of_nat: "last (string_of_nat n) = digit_char (n mod 10)"
  by (subst string_of_nat.simps) simp

lemma digit_char_is_digit: "d < 10 \<Longrightarrow> digit_char d \<in> set ''0123456789''"
  unfolding digit_char_def by (rule nth_mem) simp

lemma string_of_nat_not_length: "string_of_nat n \<noteq> ''length''"
proof
  assume "string_of_nat n = ''length''"
  then have "last (string_of_nat n) = CHR ''h''" by simp
  then have "digit_char (n mod 10) = CHR ''h''" by (simp only: last_string_of_nat)
  moreover have "digit_char (n mod 10) \<in> set ''0123456789''"
    by (rule digit_char_is_digit) simp
  ultimately show False by simp
qed

lemma array_index_length: "array_index ''length'' = None"
  by (simp add: array_index_def digit_value_def)

lemma has_key_array_not_length: "has_key (JArr xs ps) k \<Longrightarrow> k \<noteq> ''length''"
  using string_of_nat_not_length by (auto simp: has_key_def) metis

lemma frame_key_put:
  assumes "key \<noteq> k" and "isArray t \<longrightarrow> k \<noteq> ''length''"
  shows "get_key (key_put t key v) k = get_key t k"
proof (cases t)
  case (JObj ps)
  with assms show ?thesis by (simp add: prop_get_prop_set_other)
next
  case (JArr xs ps)
  show ?thesis
  proof (cases "array_index key")
    case None
    with JArr assms show ?thesis
      by (simp add: prop_get_prop_set_other split: option.splits)
  next
    case (Some i)
    show ?thesis
    proof (cases "array_index k")
      case None
      with JArr Some assms show ?thesis by simp
    next
      case inner: (Some j)
      from array_index_canonical [OF Some] array_index_canonical [OF inner] assms(1)
      have "i \<noteq> j" by auto
      from elem_get_elem_set_other [OF this] JArr Some inner show ?thesis
        by (simp del: elem_get.simps elem_set.simps)
    qed
  qed
qed simp_all

lemma isArray_key_put: "isArray (key_put t key v) = isArray t"
  by (cases t) (simp_all split: option.splits)

lemma key_set_is_key_put:
  "\<not> (isArray t \<and> key = ''length'') \<Longrightarrow> key_set toLength t key v = Inr (key_put t key v)"
  by (cases t) simp_all

lemma frame_index_set:
  assumes "string_of_nat i \<noteq> k" and "isArray t \<longrightarrow> k \<noteq> ''length''"
  shows "get_key (index_set t i v) k = get_key t k"
proof (cases t)
  case (JObj ps)
  with assms show ?thesis by (simp add: prop_get_prop_set_other)
next
  case (JArr xs ps)
  show ?thesis
  proof (cases "array_index k")
    case None
    with JArr assms show ?thesis by simp
  next
    case (Some j)
    from array_index_canonical [OF Some] assms(1) have "i \<noteq> j" by auto
    from elem_get_elem_set_other [OF this] JArr Some show ?thesis
      by (simp del: elem_get.simps elem_set.simps)
  qed
qed simp_all

lemma isArray_index_set: "isArray (index_set t i v) = isArray t"
  by (cases t) simp_all

lemma frame_mergeItems:
  "\<forall>i<length items. items ! i \<noteq> None \<longrightarrow> string_of_nat (index + i) \<noteq> k \<Longrightarrow>
   isArray t \<longrightarrow> k \<noteq> ''length'' \<Longrightarrow>
   mergeItems toLength deep overwrite t items index = Inr r \<Longrightarrow>
   get_key r k = get_key t k"
proof (induction items arbitrary: t index)
  case Nil
  then show ?case by simp
next
  case (Cons item rest)
  have later: "\<forall>i<length rest. rest ! i \<noteq> None \<longrightarrow> string_of_nat (index + 1 + i) \<noteq> k"
  proof (intro allI impI)
    fix i
    assume "i < length rest" and "rest ! i \<noteq> None"
    then have "Suc i < length (item # rest)" and "(item # rest) ! Suc i \<noteq> None" by simp_all
    with Cons.prems(1) have "string_of_nat (index + Suc i) \<noteq> k" by blast
    then show "string_of_nat (index + 1 + i) \<noteq> k" by simp
  qed
  show ?case
  proof (cases item)
    case None
    with Cons.prems(3)
    have "mergeItems toLength deep overwrite t rest (index + 1) = Inr r" by simp
    from Cons.IH [OF later Cons.prems(2) this] show ?thesis .
  next
    case (Some x)
    with Cons.prems(1) have here: "string_of_nat index \<noteq> k" by fastforce
    from Cons.prems(3) Some obtain w where
      run: "mergeItems toLength deep overwrite (index_set t index w) rest (index + 1) = Inr r"
      by (auto split: if_splits sum.splits)
    have kind: "isArray (index_set t index w) \<longrightarrow> k \<noteq> ''length''"
      using Cons.prems(2) by (simp only: isArray_index_set)
    from Cons.IH [OF later kind run] frame_index_set [OF here Cons.prems(2)]
    show ?thesis by simp
  qed
qed

lemma frame_mergeKeys:
  "k \<notin> fst ` set sourceObj \<Longrightarrow>
   isArray t \<longrightarrow> k \<noteq> ''length'' \<and> ''length'' \<notin> fst ` set sourceObj \<Longrightarrow>
   mergeKeys toLength deep overwrite t sourceObj = Inr r \<Longrightarrow>
   get_key r k = get_key t k"
proof (induction sourceObj arbitrary: t)
  case Nil
  then show ?case by simp
next
  case (Cons p rest)
  obtain key sourceValue where p: "p = (key, sourceValue)" by (cases p)
  from Cons.prems(1) p have ne: "key \<noteq> k" and later: "k \<notin> fst ` set rest"
    by auto
  from Cons.prems(2) p have here: "\<not> (isArray t \<and> key = ''length'')"
    by auto
  from Cons.prems(2) have kind: "isArray t \<longrightarrow> k \<noteq> ''length''"
    by simp
  from Cons.prems(2) have rest_ok: "isArray t \<longrightarrow> k \<noteq> ''length'' \<and> ''length'' \<notin> fst ` set rest"
    by simp
  from Cons.prems(3) p obtain v where
    "mergeKeys toLength deep overwrite (key_put t key v) rest = Inr r
     \<or> mergeKeys toLength deep overwrite t rest = Inr r"
    by (auto simp: Let_def key_set_is_key_put [OF here] split: if_splits sum.splits)
  then show ?case
  proof
    assume run: "mergeKeys toLength deep overwrite (key_put t key v) rest = Inr r"
    have "isArray (key_put t key v) \<longrightarrow> k \<noteq> ''length'' \<and> ''length'' \<notin> fst ` set rest"
      using rest_ok by (simp only: isArray_key_put)
    from Cons.IH [OF later this run] frame_key_put [OF ne kind] show ?thesis
      by simp
  next
    assume "mergeKeys toLength deep overwrite t rest = Inr r"
    from Cons.IH [OF later rest_ok this] show ?thesis .
  qed
qed


text \<open>
  \<open>String(index)\<close> is read back as the index it came from, so different indices have
  different keys.
\<close>

lemma digit_value_digit_char: "d < 10 \<Longrightarrow> digit_value (digit_char d) = Some d"
proof -
  assume "d < 10"
  then have "d = 0 \<or> d = 1 \<or> d = 2 \<or> d = 3 \<or> d = 4 \<or> d = 5 \<or> d = 6 \<or> d = 7 \<or> d = 8 \<or> d = 9"
    by arith
  then show ?thesis
    by (elim disjE) (simp_all add: digit_value_def digit_char_def)
qed

lemma digits_value_append:
  "digits_value (cs @ ds) acc =
     (case digits_value cs acc of None \<Rightarrow> None | Some a \<Rightarrow> digits_value ds a)"
  by (induction cs arbitrary: acc) (simp_all split: option.splits)

lemma digits_value_string_of_nat: "digits_value (string_of_nat n) 0 = Some n"
proof (induction n rule: string_of_nat.induct)
  case (1 n)
  show ?case
  proof (cases "n < 10")
    case True
    then show ?thesis
      by (subst string_of_nat.simps) (simp add: digit_value_digit_char)
  next
    case False
    with 1 have "digits_value (string_of_nat (n div 10)) 0 = Some (n div 10)" by simp
    with False show ?thesis
      by (subst string_of_nat.simps) (simp add: digits_value_append digit_value_digit_char)
  qed
qed

lemma string_of_nat_inj: "string_of_nat i = string_of_nat j \<Longrightarrow> i = j"
proof -
  assume eq: "string_of_nat i = string_of_nat j"
  have "Some i = digits_value (string_of_nat i) 0"
    by (simp only: digits_value_string_of_nat)
  also have "\<dots> = digits_value (string_of_nat j) 0"
    by (simp only: eq)
  also have "\<dots> = Some j"
    by (simp only: digits_value_string_of_nat)
  finally show ?thesis by simp
qed

lemma array_index_string_of_nat: "array_index (string_of_nat j) = Some i \<Longrightarrow> i = j"
proof -
  assume "array_index (string_of_nat j) = Some i"
  then have "string_of_nat i = string_of_nat j" by (rule array_index_canonical)
  then show ?thesis by (rule string_of_nat_inj)
qed

lemma in_index_keys:
  "k \<in> set (index_keys xs) \<longleftrightarrow> (\<exists>j<length xs. xs ! j \<noteq> None \<and> k = string_of_nat j)"
  by auto

lemma keys_insert_prop: "fst ` set (insert_prop key v ps) = insert key (fst ` set ps)"
  by (induction ps) (auto split: option.splits)

lemma keys_prop_set: "fst ` set (prop_set ps key v) = insert key (fst ` set ps)"
  by (auto simp: prop_set_def keys_insert_prop dom_update)

text \<open>
  An array whose elements change only away from the key: a key present afterwards was
  present before, with the same value.
\<close>

lemma keep_elements:
  assumes same: "\<And>j. j < length ys \<Longrightarrow> ys ! j \<noteq> None \<Longrightarrow> string_of_nat j = k \<Longrightarrow>
                       j < length xs \<and> xs ! j = ys ! j"
      and present: "has_key (JArr ys ps) k"
  shows "has_key (JArr xs ps) k \<and> get_key (JArr ys ps) k = get_key (JArr xs ps) k"
proof (cases "k \<in> set (index_keys ys)")
  case True
  then obtain j where j: "j < length ys" "ys ! j \<noteq> None" "k = string_of_nat j"
    unfolding in_index_keys by blast
  from same [OF j(1,2)] j(3) have old: "j < length xs" "xs ! j = ys ! j" by simp_all
  with j have "k \<in> set (index_keys xs)"
    unfolding in_index_keys by metis
  then have "has_key (JArr xs ps) k" by (simp add: has_key_def)
  moreover have "get_key (JArr ys ps) k = get_key (JArr xs ps) k"
  proof (cases "array_index k")
    case None
    with j(3) string_of_nat_not_length [of j] show ?thesis by simp
  next
    case (Some i)
    with j(3) have "i = j" by (simp add: array_index_string_of_nat)
    with Some j old show ?thesis by simp
  qed
  ultimately show ?thesis by blast
next
  case False
  with present have named: "array_index k = None" "k \<noteq> ''length''" "k \<in> fst ` set ps"
    by (auto simp: has_key_def)
  then have "has_key (JArr xs ps) k" by (simp add: has_key_def)
  with named show ?thesis by simp
qed

lemma nth_elem_set_other:
  "j \<noteq> i \<Longrightarrow> j < length (elem_set xs i v) \<Longrightarrow> elem_set xs i v ! j \<noteq> None \<Longrightarrow>
   j < length xs \<and> xs ! j = elem_set xs i v ! j"
  by (auto simp: nth_append nth_Cons' split: if_splits)

lemma nth_resize:
  "j < length (resize xs n) \<Longrightarrow> resize xs n ! j \<noteq> None \<Longrightarrow>
   j < length xs \<and> xs ! j = resize xs n ! j"
  by (auto simp: nth_append split: if_splits)

lemma keep_key_put:
  assumes "key \<noteq> k" and "has_key (key_put t key v) k"
  shows "has_key t k \<and> get_key (key_put t key v) k = get_key t k"
proof (cases t)
  case (JObj ps)
  with assms have "has_key t k"
    by (auto simp: has_key_def keys_prop_set)
  with JObj assms(1) show ?thesis by (simp add: prop_get_prop_set_other)
next
  case (JArr xs ps)
  show ?thesis
  proof (cases "array_index key")
    case None
    with JArr assms have "has_key t k"
      by (auto simp: has_key_def keys_prop_set)
    moreover from this JArr have "isArray t \<longrightarrow> k \<noteq> ''length''"
      by (simp add: has_key_array_not_length)
    ultimately show ?thesis
      using frame_key_put [OF assms(1)] by blast
  next
    case (Some i)
    from array_index_canonical [OF Some] assms(1) have ne: "string_of_nat i \<noteq> k" by simp
    have "has_key (JArr xs ps) k
          \<and> get_key (JArr (elem_set xs i v) ps) k = get_key (JArr xs ps) k"
    proof (rule keep_elements)
      show "has_key (JArr (elem_set xs i v) ps) k"
        using assms(2) JArr Some by simp
      fix j
      assume "j < length (elem_set xs i v)" "elem_set xs i v ! j \<noteq> None" "string_of_nat j = k"
      with ne show "j < length xs \<and> xs ! j = elem_set xs i v ! j"
        by (intro nth_elem_set_other) auto
    qed
    with JArr Some show ?thesis by simp
  qed
qed (use assms in \<open>simp_all add: has_key_def\<close>)

lemma keep_key_set:
  assumes "key \<noteq> k" and "key_set toLength t key v = Inr t'" and "has_key t' k"
  shows "has_key t k \<and> get_key t' k = get_key t k"
proof (cases "isArray t \<and> key = ''length''")
  case False
  with assms(2) have "t' = key_put t key v"
    by (simp add: key_set_is_key_put)
  with assms(3) keep_key_put [OF assms(1), of t v] show ?thesis by simp
next
  case True
  then obtain xs ps where t: "t = JArr xs ps" by (cases t) simp_all
  with True assms(2) obtain n where t': "t' = JArr (resize xs n) ps"
    by (auto split: option.splits)
  have "has_key (JArr xs ps) k \<and> get_key (JArr (resize xs n) ps) k = get_key (JArr xs ps) k"
  proof (rule keep_elements)
    show "has_key (JArr (resize xs n) ps) k"
      using assms(3) t' by simp
    fix j
    assume "j < length (resize xs n)" "resize xs n ! j \<noteq> None" "string_of_nat j = k"
    then show "j < length xs \<and> xs ! j = resize xs n ! j"
      by (intro nth_resize)
  qed
  with t t' show ?thesis by simp
qed

lemma keep_mergeKeys:
  "k \<notin> fst ` set sourceObj \<Longrightarrow>
   mergeKeys toLength deep overwrite t sourceObj = Inr r \<Longrightarrow> has_key r k \<Longrightarrow>
   has_key t k \<and> get_key r k = get_key t k"
proof (induction sourceObj arbitrary: t)
  case Nil
  then show ?case by simp
next
  case (Cons p rest)
  obtain key sourceValue where p: "p = (key, sourceValue)" by (cases p)
  from Cons.prems(1) p have ne: "key \<noteq> k" and later: "k \<notin> fst ` set rest"
    by auto
  from Cons.prems(2) p obtain t' where
    run: "mergeKeys toLength deep overwrite t' rest = Inr r"
    and step: "t' = t \<or> (\<exists>v. t' = key_put t key v) \<or> (\<exists>v. key_set toLength t key v = Inr t')"
    by (auto simp: Let_def split: if_splits sum.splits)
  from Cons.IH [OF later run Cons.prems(3)]
  have after: "has_key t' k" and same: "get_key r k = get_key t' k" by simp_all
  from step have "has_key t k \<and> get_key t' k = get_key t k"
  proof (elim disjE exE)
    assume "t' = t"
    with after show ?thesis by simp
  next
    fix v assume "t' = key_put t key v"
    with after keep_key_put [OF ne, of t v] show ?thesis by simp
  next
    fix v assume "key_set toLength t key v = Inr t'"
    from keep_key_set [OF ne this after] show ?thesis .
  qed
  with same show ?case by simp
qed

text \<open>
  Without \<open>overwrite\<close> a merge that returns has assigned no length of its array target: the
  only assignment it could make there is that of an empty object, which throws.
\<close>

lemma frame_mergeKeys_no_overwrite:
  "k \<notin> fst ` set sourceObj \<Longrightarrow> isArray t \<Longrightarrow> k \<noteq> ''length'' \<Longrightarrow>
   mergeKeys toLength deep False t sourceObj = Inr r \<Longrightarrow>
   get_key r k = get_key t k"
proof (induction sourceObj arbitrary: t)
  case Nil
  then show ?case by simp
next
  case (Cons p rest)
  obtain key sourceValue where p: "p = (key, sourceValue)" by (cases p)
  from Cons.prems(1) p have ne: "key \<noteq> k" and later: "k \<notin> fst ` set rest"
    by auto
  from Cons.prems(2) obtain xs ps where t: "t = JArr xs ps" by (cases t) simp_all
  have kind: "isArray t \<longrightarrow> k \<noteq> ''length''"
    using Cons.prems(3) by simp
  show ?case
  proof (cases "key = ''length''")
    case True
    with t have "get_key t key = JNum (real (length xs))"
      by (simp add: array_index_length)
    with Cons.prems(4) p t True
    have "mergeKeys toLength deep False t rest = Inr r"
      by (auto simp: Let_def split: if_splits sum.splits)
    from Cons.IH [OF later Cons.prems(2,3) this] show ?thesis .
  next
    case False
    then have here: "\<not> (isArray t \<and> key = ''length'')" by simp
    from Cons.prems(4) p obtain v where
      "mergeKeys toLength deep False (key_put t key v) rest = Inr r
       \<or> mergeKeys toLength deep False t rest = Inr r"
      by (auto simp: Let_def key_set_is_key_put [OF here] split: if_splits sum.splits)
    then show ?thesis
    proof
      assume run: "mergeKeys toLength deep False (key_put t key v) rest = Inr r"
      have "isArray (key_put t key v)"
        using Cons.prems(2) by (simp only: isArray_key_put)
      from Cons.IH [OF later this Cons.prems(3) run] frame_key_put [OF ne kind] show ?thesis
        by simp
    next
      assume "mergeKeys toLength deep False t rest = Inr r"
      from Cons.IH [OF later Cons.prems(2,3) this] show ?thesis .
    qed
  qed
qed

text \<open>
  C7, as the code has it. Let the key be present in the target and absent from the source,
  and let the call return. Then, for every choice of the two flags and every runtime: if
  the key is still present in the result, its value there is the value it had in the
  target; and its value is the value it had in the target in every case but two, namely
  the shallow overwriting merge of an array source (\<open>deep = false\<close>,
  \<open>overwrite = true\<close>), which returns the source array itself, and the overwriting merge,
  into a target that is an array, of a source with the key \<open>length\<close>, which assigns the
  length of the target. A call that does not return has thrown on an assignment to the
  length of an array.
\<close>

theorem merge_keeps_keys_absent_from_source:
  assumes "has_key target k" and "\<not> has_key source k"
      and "merge toLength target source options = Inr r"
  shows "(has_key r k \<longrightarrow> get_key r k = get_key target k)
       \<and> (\<not> (isArray source \<and> \<not> option_deep options \<and> option_overwrite options)
          \<and> \<not> (isArray target \<and> option_overwrite options \<and> has_key source ''length'')
          \<longrightarrow> get_key r k = get_key target k)"
proof -
  from assms(1) have obj: "\<not> (target = JNull \<or> \<not> typeof_object target)"
    by (cases target) (simp_all add: has_key_def)
  from assms(1) have kind: "isArray target \<longrightarrow> k \<noteq> ''length''"
    by (cases target) (simp_all add: has_key_array_not_length)
  show ?thesis
  proof (cases source)
    case (JArr sourceArr sourceProps)
    show ?thesis
    proof (cases "option_deep options")
      case True
      with assms(3) JArr obj
      have "mergeItems toLength True (option_overwrite options) target sourceArr 0 = Inr r"
        by (simp add: merge.simps)
      moreover from assms(2) JArr
      have "\<forall>i<length sourceArr. sourceArr ! i \<noteq> None \<longrightarrow> string_of_nat (0 + i) \<noteq> k"
        by (auto simp: has_key_def)
      ultimately have "get_key r k = get_key target k"
        using frame_mergeItems kind by blast
      then show ?thesis by simp
    next
      case False
      show ?thesis
      proof (cases "option_overwrite options")
        case True
        with False assms(3) JArr obj have "r = source"
          by (simp add: merge.simps)
        with assms(2) True False JArr show ?thesis by simp
      next
        case no: False
        with False assms(3) JArr obj have "r = target"
          by (simp add: merge.simps)
        then show ?thesis by simp
      qed
    qed
  next
    case (JObj sourceObj)
    with assms(3) obj
    have run: "mergeKeys toLength (option_deep options) (option_overwrite options) target sourceObj
               = Inr r"
      by (simp add: merge.simps)
    from assms(2) JObj have absent: "k \<notin> fst ` set sourceObj"
      by (simp add: has_key_def)
    from keep_mergeKeys [OF absent run]
    have first: "has_key r k \<longrightarrow> get_key r k = get_key target k"
      by simp
    have second: "get_key r k = get_key target k"
      if no_length: "\<not> (isArray target \<and> option_overwrite options \<and> has_key source ''length'')"
    proof (cases "isArray target \<and> \<not> option_overwrite options")
      case True
      with run have "mergeKeys toLength (option_deep options) False target sourceObj = Inr r"
        by simp
      from frame_mergeKeys_no_overwrite [OF absent _ _ this] True kind show ?thesis
        by simp
    next
      case False
      with no_length JObj kind
      have "isArray target \<longrightarrow> k \<noteq> ''length'' \<and> ''length'' \<notin> fst ` set sourceObj"
        by (simp add: has_key_def)
      from frame_mergeKeys [OF absent this run] show ?thesis .
    qed
    from first second show ?thesis by blast
  qed (use assms(3) in \<open>simp_all add: merge.simps\<close>)
qed


theorem merge_keeps_keys_absent_from_source_witness:
  "has_key (JObj [(''a'', JArray [JStr ''p'']), (''b'', JStr ''keep'')]) ''b''
   \<and> \<not> has_key (JObj [(''a'', JObj [(''x'', JStr ''s'')])]) ''b''
   \<and> merge noTextLength (JObj [(''a'', JArray [JStr ''p'']), (''b'', JStr ''keep'')])
            (JObj [(''a'', JObj [(''x'', JStr ''s'')])]) None
       = Inr (JObj [(''a'', JArr [Some (JStr ''p'')] [(''x'', JStr ''s'')]), (''b'', JStr ''keep'')])
   \<and> has_key (JObj [(''a'', JArr [Some (JStr ''p'')] [(''x'', JStr ''s'')]), (''b'', JStr ''keep'')])
              ''b''
   \<and> \<not> (isArray (JObj [(''a'', JObj [(''x'', JStr ''s'')])])
          \<and> \<not> option_deep None \<and> option_overwrite None)
   \<and> \<not> (isArray (JObj [(''a'', JArray [JStr ''p'']), (''b'', JStr ''keep'')])
          \<and> option_overwrite None
          \<and> has_key (JObj [(''a'', JObj [(''x'', JStr ''s'')])]) ''length'')
   \<and> get_key (JObj [(''a'', JArr [Some (JStr ''p'')] [(''x'', JStr ''s'')]), (''b'', JStr ''keep'')])
              ''b''
       = get_key (JObj [(''a'', JArray [JStr ''p'']), (''b'', JStr ''keep'')]) ''b''"
proof -
  let ?t = "JObj [(''a'', JArray [JStr ''p'']), (''b'', JStr ''keep'')]"
  let ?s = "JObj [(''a'', JObj [(''x'', JStr ''s'')])]"
  let ?r = "JObj [(''a'', JArr [Some (JStr ''p'')] [(''x'', JStr ''s'')]), (''b'', JStr ''keep'')]"
  have h1: "has_key ?t ''b''" by (simp add: has_key_def)
  have h2: "\<not> has_key ?s ''b''" by (simp add: has_key_def)
  have h3: "merge noTextLength ?t ?s None = Inr ?r"
    by (simp add: merge.simps option_deep_def option_overwrite_def prop_get_def prop_set_def
          array_index_def digit_value_def)
  have h4: "has_key ?r ''b''" by (simp add: has_key_def)
  have h5: "\<not> (isArray ?s \<and> \<not> option_deep None \<and> option_overwrite None)" by simp
  have h6: "\<not> (isArray ?t \<and> option_overwrite None \<and> has_key ?s ''length'')" by simp
  from merge_keeps_keys_absent_from_source [OF h1 h2 h3] h1 h2 h3 h4 h5 h6
  show ?thesis by blast
qed

text \<open>
  The claim as the specification words it fails in both cases.
  \<open>merge([1, 2], [9], { deep: false })\<close> returns the source \<open>[9]\<close>, so the key \<open>1\<close>,
  present in the target and absent from the source, no longer has the value 2. And
  \<open>merge([1, 2, 3], { length: 0 })\<close> assigns the length of the target and returns it
  empty, so the key \<open>1\<close> no longer has the value 2.
\<close>

theorem merge_changes_absent_key_counterexample:
  "has_key (JArray [JNum 1, JNum 2]) ''1''
   \<and> \<not> has_key (JArray [JNum 9]) ''1''
   \<and> merge noTextLength (JArray [JNum 1, JNum 2]) (JArray [JNum 9])
            (Some \<lparr>deep_field = Some False, overwrite_field = None\<rparr>) = Inr (JArray [JNum 9])
   \<and> get_key (JArray [JNum 9]) ''1'' \<noteq> get_key (JArray [JNum 1, JNum 2]) ''1''
   \<and> has_key (JArray [JNum 1, JNum 2, JNum 3]) ''1''
   \<and> \<not> has_key (JObj [(''length'', JNum 0)]) ''1''
   \<and> merge noTextLength (JArray [JNum 1, JNum 2, JNum 3]) (JObj [(''length'', JNum 0)]) None
       = Inr (JArray [])
   \<and> get_key (JArray []) ''1'' \<noteq> get_key (JArray [JNum 1, JNum 2, JNum 3]) ''1''"
  by (simp add: has_key_def merge.simps option_deep_def option_overwrite_def
        string_of_nat.simps digit_char_def array_index_def digit_value_def)

subsection \<open>Nested objects of the source\<close>

text \<open>
  C1 fails on the code. With the default options, \<open>merge({}, {a: {b: 1}})\<close> returns
  \<open>{a: {}}\<close>: the nested content of the source is not in the result. With
  \<open>overwrite = false\<close>, \<open>merge({a: 5}, {a: {b: 1}}, {overwrite: false})\<close> returns
  \<open>{a: {}}\<close> as well: the defined target value 5 is not kept.
\<close>

theorem merge_drops_nested_source_object:
  "merge toLength (JObj []) (JObj [(''a'', JObj [(''b'', JNum 1)])]) None
     = Inr (JObj [(''a'', JObj [])])
   \<and> merge toLength (JObj [(''a'', JNum 5)]) (JObj [(''a'', JObj [(''b'', JNum 1)])])
            (Some \<lparr>deep_field = None, overwrite_field = Some False\<rparr>)
       = Inr (JObj [(''a'', JObj [])])"
  by (simp add: merge.simps option_deep_def option_overwrite_def prop_get_def prop_set_def
        array_index_def digit_value_def)

section \<open>The rendering engine, as far as the repository drives it\<close>

text \<open>
  The engine is a third-party library; none of its code is in the repository. A value the
  engine computes is represented by the call that computes it, with the arguments the
  source passes: \<open>FromDegrees\<close> stands for \<open>Cesium.Cartesian3.fromDegrees\<close>,
  \<open>EastNorthUpToFixedFrame\<close> for \<open>Cesium.Transforms.eastNorthUpToFixedFrame\<close>,
  \<open>MultiplyByTranslation\<close> for \<open>Cesium.Matrix4.multiplyByTranslation\<close>, and so on. An
  argument that the source may leave \<open>undefined\<close> is an \<open>option\<close>. Outside a
  \<open>try\<close> block an engine call is taken to return, with one exception:
  \<open>Cesium.ColorGeometryInstanceAttribute.fromColor\<close> requires its colour and throws
  when it is given \<open>undefined\<close>.
\<close>

datatype color =
    CYAN | WHITE | BLACK | YELLOW
  | Color real real real real
  | FromCssColorString string
  | WithAlpha color real

datatype cartesian3 =
    Cartesian3 real real real
  | FromDegrees "real option" "real option" "real option"

datatype matrix4 =
    EastNorthUpToFixedFrame cartesian3
  | MultiplyByTranslation matrix4 cartesian3
  | HeadingPitchRollToFixedFrame cartesian3 real real real
  | FromTranslation cartesian3
  | Multiply matrix4 matrix4

datatype geometry = BoxOutlineGeometry cartesian3

datatype color_attribute = ColorFromColor color

datatype engine_error = ColorRequired

definition fromColor :: "color option \<Rightarrow> engine_error + color_attribute" where
  "fromColor given = (case given of None \<Rightarrow> Inl ColorRequired | Some c \<Rightarrow> Inr (ColorFromColor c))"

record GeometryInstance =
  geometry :: geometry
  modelMatrix :: "matrix4 option"
  attributes :: "color_attribute option"

datatype appearance = PerInstanceColorAppearance bool bool

record Primitive =
  geometryInstances :: "GeometryInstance list"
  appearance :: appearance
  asynchronous :: bool

text \<open>
  \<open>options.name || d\<close> with a default text \<open>d\<close>: the default when the name is
  missing or empty. The defaults of the source are the fixed name of an image point
  (\<open>setPointEntityByImg\<close>), the fixed name of a point (\<open>setPointPrimitiveByImg\<close>) and
  the numbered name of a point of the batch.
\<close>

datatype default_text = ImagePointName | PointName | PointNumber string

datatype caption = Default default_text | Text string

fun or_default :: "string option \<Rightarrow> default_text \<Rightarrow> caption" where
  "or_default None d = Default d"
| "or_default (Some name) d = (if name = [] then Default d else Text name)"

text \<open>
  What \<open>map.entities.add\<close> is given by the four functions that add entities: a billboard
  with a label, a glb model (uri, heading in degrees), the drone model (uri, the height
  its label shows) and a
  polyline of the grid (its two end points, and no position). \<open>sampled\<close> is the sample of the
  \<open>SampledPositionProperty\<close> that \<open>setDronePointByGlb\<close> assigns to the entity.
\<close>

datatype entity_kind =
    ImagePoint caption
  | GlbModel string real
  | DroneModel string "real option"
  | GridLine cartesian3 cartesian3

record Entity =
  entityId :: "string option"
  position :: "cartesian3 option"
  kind :: entity_kind
  sampled :: "(real \<times> cartesian3) option"

text \<open>
  The \<open>div\<close> of \<open>setPointPrimitiveByImg\<close>: its id, the image it shows, its caption, and
  where \<open>updateDivPosition\<close> has put it.
\<close>

datatype placement = Unplaced | Hidden | Shown real real

record Div =
  divId :: string
  divImage :: "string option"
  divName :: caption
  divPlacement :: placement

text \<open>
  The object kept in \<open>_originalOptions\<close> of a cone or pyramid primitive: the options of
  \<open>conicalWave\<close> or \<open>rectangularPyramidWave\<close>, spread and later overwritten field by
  field, so any field may be missing. A cone or pyramid primitive is described by the
  values its geometry, model matrix and appearance are built from.
\<close>

record WaveOptions =
  optId :: "string option"
  optPositions :: "real list option"
  optHeading :: "real option"
  optPitch :: "real option"
  optLength :: "real option"
  optBottomRadius :: "real option"
  optThickness :: "real option"
  optColor :: "string option"
  optHeight :: "real option"
  optHorizontalAngle :: "real option"
  optVerticalAngle :: "real option"

datatype wave_geometry =
    ConeGeometry "real option" "real option"
  | PyramidGeometry "real option" "real option"

datatype wave_matrix = WaveMatrix "real list option" "real option" "real option" "real option"

datatype wave_appearance =
    ConeMaterial string real
  | PyramidMaterial string
  | Reused appearance

record Wave =
  waveGeometry :: wave_geometry
  waveAppearance :: "wave_appearance option"
  waveMatrix :: wave_matrix
  originalOptions :: WaveOptions

text \<open>
  The \<open>modelEntity\<close> object of \<open>setDronePointByGlb\<close>, without the fields that are
  constants there (\<open>speed\<close>, \<open>isFlying\<close>) and with \<open>positionProperty\<close> kept as the
  sample of the entity.
\<close>

record Drone =
  targetLng :: real
  targetLat :: real
  targetHeight :: real
  droneEntity :: "handle option"
  currentPosition :: cartesian3
  trailEntityId :: string

text \<open>
  The objects the repository creates. The state of the engine: for each viewer its entity
  collection, the primitive collection of its scene, the children of its container, the
  listeners of \<open>scene.postRender\<close>, the flights requested of its camera and the time of
  its clock; the objects by handle; and the next unused handle.
\<close>

datatype object =
    PrimitiveObj Primitive
  | WaveObj Wave
  | EntityObj Entity
  | DivObj Div
  | ListenerObj handle handle
  | DivPointObj string cartesian3 handle "handle list"
  | BillboardCollectionObj
  | LabelCollectionObj
  | BillboardObj string cartesian3
  | LabelObj cartesian3 caption
  | BillboardLabelObj handle handle
  | CollectionsObj handle handle
  | DroneObj Drone

record engine_state =
  entitiesOf :: "handle \<Rightarrow> handle list"
  primitivesOf :: "handle \<Rightarrow> handle list"
  containerOf :: "handle \<Rightarrow> handle list"
  postRenderOf :: "handle \<Rightarrow> handle list"
  cameraFlights :: "handle \<Rightarrow> cartesian3 list"
  clockOf :: "handle \<Rightarrow> real"
  objects :: "handle \<rightharpoonup> object"
  nextHandle :: handle

text \<open>
  \<open>new\<close> yields an object with a handle not used before. \<open>add\<close> appends a reference to
  a collection, \<open>remove\<close> takes the reference out if it is there.
\<close>

definition new_object :: "object \<Rightarrow> engine_state \<Rightarrow> handle \<times> engine_state" where
  "new_object obj e =
     (nextHandle e, e\<lparr>objects := (objects e)(nextHandle e \<mapsto> obj), nextHandle := nextHandle e + 1\<rparr>)"

definition entities_add :: "handle \<Rightarrow> Entity \<Rightarrow> engine_state \<Rightarrow> handle \<times> engine_state" where
  "entities_add m ent e =
     (case new_object (EntityObj ent) e of
        (h, e1) \<Rightarrow> (h, e1\<lparr>entitiesOf := (entitiesOf e1)(m := entitiesOf e1 m @ [h])\<rparr>))"

definition entities_remove :: "handle \<Rightarrow> handle \<Rightarrow> engine_state \<Rightarrow> engine_state" where
  "entities_remove m h e = e\<lparr>entitiesOf := (entitiesOf e)(m := remove1 h (entitiesOf e m))\<rparr>"

definition primitives_add :: "handle \<Rightarrow> handle \<Rightarrow> engine_state \<Rightarrow> engine_state" where
  "primitives_add v p e = e\<lparr>primitivesOf := (primitivesOf e)(v := primitivesOf e v @ [p])\<rparr>"

definition primitives_remove :: "handle \<Rightarrow> handle \<Rightarrow> engine_state \<Rightarrow> engine_state" where
  "primitives_remove v p e = e\<lparr>primitivesOf := (primitivesOf e)(v := remove1 p (primitivesOf e v))\<rparr>"

section \<open>VoxelGrid\<close>

record VoxelGridOptions =
  lon :: real
  lat :: real
  baseHeight :: real
  voxelSize :: real
  countX :: real
  countY :: real
  countZ :: real
  color :: "color option"

record VoxelGrid =
  viewer :: handle
  primitive :: "handle option"

text \<open>
  The body of the innermost loop of \<open>create\<close>: the translation, the model matrix, and
  the instance pushed. \<open>color\<close> is an optional field of the options and is passed to
  \<open>fromColor\<close> as it is, so the body throws when the options have no colour.
\<close>

definition voxelInstance :: "matrix4 \<Rightarrow> geometry \<Rightarrow> VoxelGridOptions \<Rightarrow> real \<Rightarrow> real \<Rightarrow> real
                             \<Rightarrow> engine_error + GeometryInstance" where
  "voxelInstance enuTransform boxGeometry options x y z =
     (let translation = Cartesian3 (x * voxelSize options) (y * voxelSize options) (z * voxelSize options);
          modelMatrix = MultiplyByTranslation enuTransform translation
      in (case fromColor (color options) of
            Inl err \<Rightarrow> Inl err
          | Inr colorAttribute \<Rightarrow>
              Inr \<lparr> geometry = boxGeometry, modelMatrix = Some modelMatrix,
                    attributes = Some colorAttribute \<rparr>))"

text \<open>
  The three nested \<open>for\<close> loops of \<open>create\<close>. The counters are numbers, like the
  counts, and the loop runs while the counter is below the count. An exception of the body
  ends all three loops.
\<close>

lemma loop_measure_decreases:
  "(z::real) < c \<Longrightarrow> \<lceil>c - (z + 1)\<rceil> < \<lceil>c - z\<rceil>"
proof -
  have "c - (z + 1) = (c - z) - 1" by simp
  then have "\<lceil>c - (z + 1)\<rceil> = \<lceil>c - z\<rceil> - 1"
    by (simp only: ceiling_diff_one)
  then show ?thesis by simp
qed

function forZ :: "matrix4 \<Rightarrow> geometry \<Rightarrow> VoxelGridOptions \<Rightarrow> real \<Rightarrow> real \<Rightarrow> real
                  \<Rightarrow> GeometryInstance list \<Rightarrow> engine_error + GeometryInstance list" where
  "forZ enuTransform boxGeometry options x y z instances =
     (if z < countZ options
      then (case voxelInstance enuTransform boxGeometry options x y z of
              Inl err \<Rightarrow> Inl err
            | Inr made \<Rightarrow>
                forZ enuTransform boxGeometry options x y (z + 1) (instances @ [made]))
      else Inr instances)"
  by pat_completeness auto
termination
  by (relation "measure (\<lambda>(enuTransform, boxGeometry, options, x, y, z, instances).
                            nat \<lceil>countZ options - z\<rceil>)")
     (simp_all add: loop_measure_decreases)

function forY :: "matrix4 \<Rightarrow> geometry \<Rightarrow> VoxelGridOptions \<Rightarrow> real \<Rightarrow> real
                  \<Rightarrow> GeometryInstance list \<Rightarrow> engine_error + GeometryInstance list" where
  "forY enuTransform boxGeometry options x y instances =
     (if y < countY options
      then (case forZ enuTransform boxGeometry options x y 0 instances of
              Inl err \<Rightarrow> Inl err
            | Inr pushed \<Rightarrow> forY enuTransform boxGeometry options x (y + 1) pushed)
      else Inr instances)"
  by pat_completeness auto
termination
  by (relation "measure (\<lambda>(enuTransform, boxGeometry, options, x, y, instances).
                            nat \<lceil>countY options - y\<rceil>)")
     (simp_all add: loop_measure_decreases)

function forX :: "matrix4 \<Rightarrow> geometry \<Rightarrow> VoxelGridOptions \<Rightarrow> real
                  \<Rightarrow> GeometryInstance list \<Rightarrow> engine_error + GeometryInstance list" where
  "forX enuTransform boxGeometry options x instances =
     (if x < countX options
      then (case forY enuTransform boxGeometry options x 0 instances of
              Inl err \<Rightarrow> Inl err
            | Inr pushed \<Rightarrow> forX enuTransform boxGeometry options (x + 1) pushed)
      else Inr instances)"
  by pat_completeness auto
termination
  by (relation "measure (\<lambda>(enuTransform, boxGeometry, options, x, instances).
                            nat \<lceil>countX options - x\<rceil>)")
     (simp_all add: loop_measure_decreases)

declare forZ.simps [simp del] forY.simps [simp del] forX.simps [simp del]

text \<open>The instances \<open>create\<close> builds for given options, or the exception of the loops.\<close>

definition voxelInstances :: "VoxelGridOptions \<Rightarrow> engine_error + GeometryInstance list" where
  "voxelInstances options =
     forX (EastNorthUpToFixedFrame (FromDegrees (Some (lon options)) (Some (lat options)) (Some (baseHeight options))))
          (BoxOutlineGeometry (Cartesian3 (voxelSize options) (voxelSize options) (voxelSize options)))
          options 0 []"

text \<open>
  \<open>clear\<close> and \<open>create\<close>, on the \<open>VoxelGrid\<close> object and the state of the engine.
  \<open>create\<close> gives the exception it throws, if any, and the state it leaves: when the
  loops throw, \<open>clear\<close> has run and nothing else has, so no primitive is made, assigned or
  added.
\<close>

definition clear :: "VoxelGrid \<times> engine_state \<Rightarrow> VoxelGrid \<times> engine_state" where
  "clear ge =
     (case ge of (g, e) \<Rightarrow>
        (case primitive g of
           Some p \<Rightarrow> (g\<lparr>primitive := None\<rparr>, primitives_remove (viewer g) p e)
         | None \<Rightarrow> (g, e)))"

definition create :: "VoxelGridOptions \<Rightarrow> VoxelGrid \<times> engine_state
                      \<Rightarrow> engine_error option \<times> (VoxelGrid \<times> engine_state)" where
  "create options ge =
     (case clear ge of (g, e) \<Rightarrow>
        let origin = FromDegrees (Some (lon options)) (Some (lat options)) (Some (baseHeight options));
            enuTransform = EastNorthUpToFixedFrame origin;
            boxGeometry = BoxOutlineGeometry
                            (Cartesian3 (voxelSize options) (voxelSize options) (voxelSize options))
        in (case forX enuTransform boxGeometry options 0 [] of
              Inl err \<Rightarrow> (Some err, (g, e))
            | Inr instances \<Rightarrow>
                let (p, e1) = new_object
                                (PrimitiveObj \<lparr> geometryInstances = instances,
                                                appearance = PerInstanceColorAppearance True False,
                                                asynchronous = True \<rparr>) e;
                    g1 = g\<lparr>primitive := Some p\<rparr>
                in (None, (g1, primitives_add (viewer g1) p e1))))"

subsection \<open>The loops\<close>

text \<open>With a colour the body of the loops is the instance \<open>coloured\<close>, and no loop throws.\<close>

definition coloured :: "matrix4 \<Rightarrow> geometry \<Rightarrow> VoxelGridOptions \<Rightarrow> color \<Rightarrow> real \<Rightarrow> real \<Rightarrow> real
                        \<Rightarrow> GeometryInstance" where
  "coloured E B options c x y z =
     \<lparr> geometry = B,
       modelMatrix = Some (MultiplyByTranslation E
                             (Cartesian3 (x * voxelSize options) (y * voxelSize options)
                                (z * voxelSize options))),
       attributes = Some (ColorFromColor c) \<rparr>"

lemma voxelInstance_coloured:
  "color options = Some c \<Longrightarrow> voxelInstance E B options x y z = Inr (coloured E B options c x y z)"
  by (simp add: voxelInstance_def fromColor_def coloured_def)

lemma voxelInstance_throws:
  "color options = None \<Longrightarrow> voxelInstance E B options x y z = Inl ColorRequired"
  by (simp add: voxelInstance_def fromColor_def)

lemma forZ_nat:
  "color options = Some c \<Longrightarrow> k \<le> n \<Longrightarrow> countZ options = real n \<Longrightarrow>
   forZ E B options x y (real k) acc =
     Inr (acc @ map (\<lambda>j. coloured E B options c x y (real j)) [k..<n])"
proof (induction "n - k" arbitrary: k acc)
  case 0
  then show ?case by (simp add: forZ.simps)
next
  case (Suc d)
  then have lt: "k < n" and d: "d = n - Suc k" by simp_all
  have step: "real k + 1 = real (Suc k)" by simp
  from lt Suc.prems(1,3)
  have "forZ E B options x y (real k) acc =
        forZ E B options x y (real (Suc k)) (acc @ [coloured E B options c x y (real k)])"
    by (subst forZ.simps) (simp add: step voxelInstance_coloured del: of_nat_Suc)
  also have "\<dots> = Inr ((acc @ [coloured E B options c x y (real k)])
                   @ map (\<lambda>j. coloured E B options c x y (real j)) [Suc k..<n])"
    using lt Suc.prems(1,3) by (intro Suc.hyps(1) [OF d]) simp_all
  also have "\<dots> = Inr (acc @ map (\<lambda>j. coloured E B options c x y (real j)) [k..<n])"
    using lt by (simp add: upt_conv_Cons)
  finally show ?case .
qed

lemma forY_nat:
  assumes "color options = Some c" and "countY options = real ny" and "countZ options = real nz"
  shows "k \<le> ny \<Longrightarrow>
    forY E B options x (real k) acc =
      Inr (acc @ concat (map (\<lambda>j. map (\<lambda>l. coloured E B options c x (real j) (real l)) [0..<nz])
                            [k..<ny]))"
proof (induction "ny - k" arbitrary: k acc)
  case 0
  with assms(2) show ?case by (simp add: forY.simps)
next
  case (Suc d)
  then have lt: "k < ny" and d: "d = ny - Suc k" by simp_all
  let ?row = "\<lambda>j. map (\<lambda>l. coloured E B options c x (real j) (real l)) [0..<nz]"
  have step: "real k + 1 = real (Suc k)" by simp
  have inner: "forZ E B options x (real k) 0 acc = Inr (acc @ ?row k)"
    using forZ_nat [OF assms(1), of 0 nz E B x "real k" acc] assms(3) by simp
  from lt assms(2)
  have "forY E B options x (real k) acc = forY E B options x (real (Suc k)) (acc @ ?row k)"
    by (subst forY.simps) (simp add: step inner del: of_nat_Suc)
  also have "\<dots> = Inr ((acc @ ?row k) @ concat (map ?row [Suc k..<ny]))"
    using lt by (intro Suc.hyps(1) [OF d]) simp
  also have "\<dots> = Inr (acc @ concat (map ?row [k..<ny]))"
    using lt by (simp add: upt_conv_Cons)
  finally show ?case .
qed

lemma forX_nat:
  assumes "color options = Some c" and "countX options = real nx"
      and "countY options = real ny" and "countZ options = real nz"
  shows "k \<le> nx \<Longrightarrow>
    forX E B options (real k) acc =
      Inr (acc @ concat (map (\<lambda>i. concat (map (\<lambda>j. map (\<lambda>l. coloured E B options c (real i) (real j) (real l))
                                                        [0..<nz]) [0..<ny]))
                            [k..<nx]))"
proof (induction "nx - k" arbitrary: k acc)
  case 0
  with assms(2) show ?case by (simp add: forX.simps)
next
  case (Suc d)
  then have lt: "k < nx" and d: "d = nx - Suc k" by simp_all
  let ?slab = "\<lambda>i. concat (map (\<lambda>j. map (\<lambda>l. coloured E B options c (real i) (real j) (real l))
                                        [0..<nz]) [0..<ny])"
  have step: "real k + 1 = real (Suc k)" by simp
  have inner: "forY E B options (real k) 0 acc = Inr (acc @ ?slab k)"
    using forY_nat [OF assms(1,3,4), of 0 E B "real k" acc] by simp
  from lt assms(2)
  have "forX E B options (real k) acc = forX E B options (real (Suc k)) (acc @ ?slab k)"
    by (subst forX.simps) (simp add: step inner del: of_nat_Suc)
  also have "\<dots> = Inr ((acc @ ?slab k) @ concat (map ?slab [Suc k..<nx]))"
    using lt by (intro Suc.hyps(1) [OF d]) simp
  also have "\<dots> = Inr (acc @ concat (map ?slab [k..<nx]))"
    using lt by (simp add: upt_conv_Cons)
  finally show ?case .
qed

lemma length_concat_uniform:
  "(\<And>i. i < n \<Longrightarrow> length (f i) = m) \<Longrightarrow> length (concat (map f [0..<n])) = n * m"
  by (induction n) simp_all

lemma index_in_block:
  assumes "i < n" and "j < (m::nat)"
  shows "i * m + j < n * m"
proof -
  from assms(2) have "i * m + j < Suc i * m" by simp
  also from assms(1) have "Suc i * m \<le> n * m"
    by (intro mult_le_mono1) simp
  finally show ?thesis .
qed

lemma nth_concat_uniform:
  "(\<And>i. i < n \<Longrightarrow> length (f i) = m) \<Longrightarrow> i < n \<Longrightarrow> j < m \<Longrightarrow>
   concat (map f [0..<n]) ! (i * m + j) = f i ! j"
proof (induction n)
  case 0
  then show ?case by simp
next
  case (Suc n)
  have len: "length (concat (map f [0..<n])) = n * m"
    using Suc.prems(1) by (intro length_concat_uniform) simp
  show ?case
  proof (cases "i < n")
    case True
    then have "i * m + j < n * m"
      using Suc.prems(3) by (rule index_in_block)
    with len have "concat (map f [0..<Suc n]) ! (i * m + j) = concat (map f [0..<n]) ! (i * m + j)"
      by (simp add: nth_append)
    also have "\<dots> = f i ! j"
      using Suc.prems(1) True Suc.prems(3) by (intro Suc.IH) simp_all
    finally show ?thesis .
  next
    case False
    with Suc.prems(2) have "i = n" by simp
    with len show ?thesis by (simp add: nth_append)
  qed
qed

lemma voxelInstances_grid:
  assumes "color options = Some c" and "countX options = real nx"
      and "countY options = real ny" and "countZ options = real nz"
  shows "\<exists>instances. voxelInstances options = Inr instances
    \<and> length instances = nx * ny * nz
    \<and> (\<forall>x y z. x < nx \<longrightarrow> y < ny \<longrightarrow> z < nz \<longrightarrow>
         instances ! ((x * ny + y) * nz + z) =
           coloured
             (EastNorthUpToFixedFrame (FromDegrees (Some (lon options)) (Some (lat options)) (Some (baseHeight options))))
             (BoxOutlineGeometry (Cartesian3 (voxelSize options) (voxelSize options) (voxelSize options)))
             options c (real x) (real y) (real z))"
proof -
  let ?E = "EastNorthUpToFixedFrame (FromDegrees (Some (lon options)) (Some (lat options)) (Some (baseHeight options)))"
  let ?B = "BoxOutlineGeometry (Cartesian3 (voxelSize options) (voxelSize options) (voxelSize options))"
  let ?row = "\<lambda>i j. map (\<lambda>l. coloured ?E ?B options c (real i) (real j) (real l)) [0..<nz]"
  let ?slab = "\<lambda>i. concat (map (?row i) [0..<ny])"
  let ?all = "concat (map ?slab [0..<nx])"
  have all: "voxelInstances options = Inr ?all"
    using forX_nat [OF assms, of 0 ?E ?B "[]"] by (simp add: voxelInstances_def)
  have slab_len: "length (?slab i) = ny * nz" for i
    by (rule length_concat_uniform) simp
  have len: "length ?all = nx * ny * nz"
    using slab_len by (simp add: length_concat_uniform [where m = "ny * nz"])
  have nth: "?all ! ((x * ny + y) * nz + z) = coloured ?E ?B options c (real x) (real y) (real z)"
    if x: "x < nx" and y: "y < ny" and z: "z < nz" for x y z
  proof -
    have inner: "y * nz + z < ny * nz"
      using y z by (rule index_in_block)
    have "(x * ny + y) * nz + z = x * (ny * nz) + (y * nz + z)"
      by (simp add: algebra_simps)
    then have "?all ! ((x * ny + y) * nz + z) = ?all ! (x * (ny * nz) + (y * nz + z))"
      by (simp only:)
    also have "\<dots> = ?slab x ! (y * nz + z)"
      using slab_len x inner by (intro nth_concat_uniform) simp_all
    also have "\<dots> = ?row x y ! z"
      using y z by (intro nth_concat_uniform) simp_all
    also have "\<dots> = coloured ?E ?B options c (real x) (real y) (real z)"
      using z by simp
    finally show ?thesis .
  qed
  from all len nth show ?thesis by blast
qed

text \<open>
  With a colour the loops return for every count. Without a colour they throw in their
  first round, which there is when the three counts are positive.
\<close>

lemma forZ_returns:
  "color options = Some c \<Longrightarrow> \<exists>pushed. forZ E B options x y z instances = Inr pushed"
proof (induction E B options x y z instances rule: forZ.induct)
  case (1 E B options x y z instances)
  show ?case
  proof (cases "z < countZ options")
    case True
    from 1(1) [OF True voxelInstance_coloured [OF 1(2)] 1(2)] True 1(2) show ?thesis
      by (subst forZ.simps) (simp add: voxelInstance_coloured)
  next
    case False
    then show ?thesis by (subst forZ.simps) simp
  qed
qed

lemma forY_returns:
  "color options = Some c \<Longrightarrow> \<exists>pushed. forY E B options x y instances = Inr pushed"
proof (induction E B options x y instances rule: forY.induct)
  case (1 E B options x y instances)
  show ?case
  proof (cases "y < countY options")
    case True
    from forZ_returns [OF 1(2)] obtain pushed where
      z: "forZ E B options x y 0 instances = Inr pushed" by blast
    from 1(1) [OF True z 1(2)] True z show ?thesis
      by (subst forY.simps) simp
  next
    case False
    then show ?thesis by (subst forY.simps) simp
  qed
qed

lemma forX_returns:
  "color options = Some c \<Longrightarrow> \<exists>pushed. forX E B options x instances = Inr pushed"
proof (induction E B options x instances rule: forX.induct)
  case (1 E B options x instances)
  show ?case
  proof (cases "x < countX options")
    case True
    from forY_returns [OF 1(2)] obtain pushed where
      y: "forY E B options x 0 instances = Inr pushed" by blast
    from 1(1) [OF True y 1(2)] True y show ?thesis
      by (subst forX.simps) simp
  next
    case False
    then show ?thesis by (subst forX.simps) simp
  qed
qed

lemma voxelInstances_throw:
  assumes "color options = None"
      and "0 < countX options" and "0 < countY options" and "0 < countZ options"
  shows "voxelInstances options = Inl ColorRequired"
proof -
  have "forZ E B options 0 0 0 [] = Inl ColorRequired" for E B
    using assms(1,4) by (subst forZ.simps) (simp add: voxelInstance_throws)
  then have "forY E B options 0 0 [] = Inl ColorRequired" for E B
    using assms(3) by (subst forY.simps) simp
  then have "forX E B options 0 [] = Inl ColorRequired" for E B
    using assms(2) by (subst forX.simps) simp
  then show ?thesis by (simp add: voxelInstances_def)
qed

subsection \<open>What create leaves\<close>

lemma create_returned:
  "voxelInstances options = Inr instances \<Longrightarrow>
   create options ge =
     (let c = clear ge;
          p = nextHandle (snd c);
          e1 = (snd c)\<lparr>objects := (objects (snd c))
                          (p \<mapsto> PrimitiveObj \<lparr> geometryInstances = instances,
                                                 appearance = PerInstanceColorAppearance True False,
                                                 asynchronous = True \<rparr>),
                        nextHandle := p + 1\<rparr>
      in (None, ((fst c)\<lparr>primitive := Some p\<rparr>, primitives_add (viewer (fst c)) p e1)))"
  by (cases "clear ge") (simp add: create_def new_object_def voxelInstances_def Let_def)

lemma create_threw:
  "voxelInstances options = Inl err \<Longrightarrow> create options ge = (Some err, clear ge)"
  by (cases "clear ge") (simp add: create_def voxelInstances_def Let_def)

lemma create_returns_with_color:
  "color options = Some c \<Longrightarrow> fst (create options ge) = None"
proof -
  assume "color options = Some c"
  from forX_returns [OF this] obtain instances where "voxelInstances options = Inr instances"
    unfolding voxelInstances_def by blast
  from create_returned [OF this] show ?thesis by (simp add: Let_def)
qed

lemma create_throws_without_color:
  "color options = None \<Longrightarrow> 0 < countX options \<Longrightarrow> 0 < countY options \<Longrightarrow> 0 < countZ options \<Longrightarrow>
   create options ge = (Some ColorRequired, clear ge)"
  by (rule create_threw) (rule voxelInstances_throw)

text \<open>
  With a colour and counts that are natural numbers \<open>nx\<close>, \<open>ny\<close>, \<open>nz\<close>, \<open>create\<close>
  returns, makes one primitive and adds it to the scene of the viewer; the primitive has
  exactly \<open>nx * ny * nz\<close> geometry instances, and the instance of grid index
  \<open>(x, y, z)\<close>, at position \<open>(x * ny + y) * nz + z\<close>, has as model matrix the
  east-north-up frame at the origin multiplied by the translation
  \<open>(x * voxelSize, y * voxelSize, z * voxelSize)\<close>.
\<close>

lemma create_with_color_builds_voxel_grid:
  assumes "color options = Some c" and "countX options = real nx"
      and "countY options = real ny" and "countZ options = real nz"
  shows "\<exists>p prim.
           fst (create options ge) = None
         \<and> primitive (fst (snd (create options ge))) = Some p
         \<and> p \<in> set (primitivesOf (snd (snd (create options ge))) (viewer (fst ge)))
         \<and> objects (snd (snd (create options ge))) p = Some (PrimitiveObj prim)
         \<and> length (geometryInstances prim) = nx * ny * nz
         \<and> (\<forall>x y z. x < nx \<and> y < ny \<and> z < nz \<longrightarrow>
               modelMatrix (geometryInstances prim ! ((x * ny + y) * nz + z)) =
                 Some (MultiplyByTranslation
                         (EastNorthUpToFixedFrame
                            (FromDegrees (Some (lon options)) (Some (lat options))
                               (Some (baseHeight options))))
                         (Cartesian3 (real x * voxelSize options) (real y * voxelSize options)
                            (real z * voxelSize options))))"
proof -
  from voxelInstances_grid [OF assms] obtain instances where
    run: "voxelInstances options = Inr instances"
    and len: "length instances = nx * ny * nz"
    and nth: "\<forall>x y z. x < nx \<longrightarrow> y < ny \<longrightarrow> z < nz \<longrightarrow>
         instances ! ((x * ny + y) * nz + z) =
           coloured
             (EastNorthUpToFixedFrame (FromDegrees (Some (lon options)) (Some (lat options)) (Some (baseHeight options))))
             (BoxOutlineGeometry (Cartesian3 (voxelSize options) (voxelSize options) (voxelSize options)))
             options c (real x) (real y) (real z)"
    by blast
  let ?c = "clear ge"
  let ?p = "nextHandle (snd ?c)"
  let ?prim = "\<lparr> geometryInstances = instances,
                  appearance = PerInstanceColorAppearance True False,
                  asynchronous = True \<rparr>"
  note unfold = create_returned [OF run, of ge]
  have same_viewer: "viewer (fst ?c) = viewer (fst ge)"
    by (cases ge) (simp add: clear_def split: option.split)
  have "fst (create options ge) = None"
    by (simp add: unfold Let_def)
  moreover have "primitive (fst (snd (create options ge))) = Some ?p"
    by (simp add: unfold Let_def)
  moreover have "?p \<in> set (primitivesOf (snd (snd (create options ge))) (viewer (fst ge)))"
    by (simp add: unfold Let_def primitives_add_def same_viewer)
  moreover have "objects (snd (snd (create options ge))) ?p = Some (PrimitiveObj ?prim)"
    by (simp add: unfold Let_def primitives_add_def)
  moreover have "length (geometryInstances ?prim) = nx * ny * nz"
    using len by simp
  moreover have "\<forall>x y z. x < nx \<and> y < ny \<and> z < nz \<longrightarrow>
      modelMatrix (geometryInstances ?prim ! ((x * ny + y) * nz + z)) =
        Some (MultiplyByTranslation
                (EastNorthUpToFixedFrame
                   (FromDegrees (Some (lon options)) (Some (lat options))
                      (Some (baseHeight options))))
                (Cartesian3 (real x * voxelSize options) (real y * voxelSize options)
                   (real z * voxelSize options)))"
    using nth by (simp add: coloured_def)
  ultimately show ?thesis by blast
qed

text \<open>
  Sequences of \<open>create\<close> and \<open>clear\<close> calls on one \<open>VoxelGrid\<close>, where the caller goes
  on after a \<open>create\<close> that threw. The primitives the instance owns are those it created:
  in a run that starts with \<open>nextHandle = h0\<close>, the handles from \<open>h0\<close> on. \<open>owned\<close>
  lists the ones that are in the scene of its viewer.
\<close>

datatype voxel_op = Create VoxelGridOptions | Clear

fun voxel_step :: "voxel_op \<Rightarrow> VoxelGrid \<times> engine_state \<Rightarrow> VoxelGrid \<times> engine_state" where
  "voxel_step (Create options) ge = snd (create options ge)"
| "voxel_step Clear ge = clear ge"

fun voxel_run :: "voxel_op list \<Rightarrow> VoxelGrid \<times> engine_state \<Rightarrow> VoxelGrid \<times> engine_state" where
  "voxel_run [] ge = ge"
| "voxel_run (oper # ops) ge = voxel_run ops (voxel_step oper ge)"

definition owned :: "handle \<Rightarrow> VoxelGrid \<times> engine_state \<Rightarrow> handle list" where
  "owned h0 ge = filter (\<lambda>h. h0 \<le> h) (primitivesOf (snd ge) (viewer (fst ge)))"

definition voxel_inv :: "handle \<Rightarrow> handle \<Rightarrow> VoxelGrid \<times> engine_state \<Rightarrow> bool" where
  "voxel_inv h0 v ge =
     (viewer (fst ge) = v \<and> h0 \<le> nextHandle (snd ge)
      \<and> list_all (\<lambda>h. h < nextHandle (snd ge)) (primitivesOf (snd ge) v)
      \<and> owned h0 ge = (case primitive (fst ge) of None \<Rightarrow> [] | Some p \<Rightarrow> [p]))"

lemma clear_inv:
  assumes "voxel_inv h0 v ge"
  shows "voxel_inv h0 v (clear ge)" and "primitive (fst (clear ge)) = None"
    and "nextHandle (snd (clear ge)) = nextHandle (snd ge)"
proof -
  obtain g e where ge: "ge = (g, e)" by (cases ge)
  show "primitive (fst (clear ge)) = None"
    by (simp add: ge clear_def split: option.split)
  show "nextHandle (snd (clear ge)) = nextHandle (snd ge)"
    by (simp add: ge clear_def primitives_remove_def split: option.split)
  show "voxel_inv h0 v (clear ge)"
  proof (cases "primitive g")
    case None
    with assms ge show ?thesis by (simp add: clear_def)
  next
    case (Some p)
    from assms ge Some have v: "viewer g = v"
      and own: "filter (\<lambda>h. h0 \<le> h) (primitivesOf e v) = [p]"
      and low: "list_all (\<lambda>h. h < nextHandle e) (primitivesOf e v)"
      and h0: "h0 \<le> nextHandle e"
      by (auto simp: voxel_inv_def owned_def)
    have "filter (\<lambda>h. h0 \<le> h) (remove1 p (primitivesOf e v)) = []"
      using own by (simp only: filter_remove1) simp
    moreover have "list_all (\<lambda>h. h < nextHandle e) (remove1 p (primitivesOf e v))"
      using low by (auto simp: list_all_iff dest: notin_set_remove1)
    ultimately show ?thesis
      using ge Some v h0
      by (simp add: voxel_inv_def owned_def clear_def primitives_remove_def)
  qed
qed

lemma create_inv:
  assumes "voxel_inv h0 v ge"
  shows "voxel_inv h0 v (snd (create options ge))"
    and "primitive (fst (snd (create options ge)))
           = (if fst (create options ge) = None then Some (nextHandle (snd ge)) else None)"
    and "owned h0 (snd (create options ge))
           = (if fst (create options ge) = None then [nextHandle (snd ge)] else [])"
proof -
  let ?c = "clear ge"
  from clear_inv [OF assms]
  have inv: "voxel_inv h0 v ?c" and none: "primitive (fst ?c) = None"
    and nh: "nextHandle (snd ?c) = nextHandle (snd ge)" .
  from inv none have v: "viewer (fst ?c) = v"
    and own: "filter (\<lambda>h. h0 \<le> h) (primitivesOf (snd ?c) v) = []"
    and low: "list_all (\<lambda>h. h < nextHandle (snd ?c)) (primitivesOf (snd ?c) v)"
    and h0: "h0 \<le> nextHandle (snd ?c)"
    by (auto simp: voxel_inv_def owned_def)
  have cleared: "owned h0 ?c = []"
    using inv none by (simp add: voxel_inv_def)
  have all: "voxel_inv h0 v (snd (create options ge))
      \<and> primitive (fst (snd (create options ge)))
           = (if fst (create options ge) = None then Some (nextHandle (snd ge)) else None)
      \<and> owned h0 (snd (create options ge))
           = (if fst (create options ge) = None then [nextHandle (snd ge)] else [])"
  proof (cases "voxelInstances options")
    case (Inl err)
    from create_threw [OF Inl, of ge] inv none cleared show ?thesis by simp
  next
    case (Inr instances)
    note unfold = create_returned [OF Inr, of ge]
    have "list_all (\<lambda>h. h < nextHandle (snd ?c) + 1) (primitivesOf (snd ?c) v @ [nextHandle (snd ?c)])"
      using low by (auto simp: list_all_iff)
    then have "voxel_inv h0 v (snd (create options ge))"
      using own h0 v
      by (simp add: voxel_inv_def unfold Let_def owned_def primitives_add_def)
    moreover have "primitive (fst (snd (create options ge))) = Some (nextHandle (snd ge))"
      by (simp add: unfold Let_def nh)
    moreover have "owned h0 (snd (create options ge)) = [nextHandle (snd ge)]"
      using own h0 v by (simp add: unfold Let_def owned_def primitives_add_def nh)
    moreover have "fst (create options ge) = None"
      by (simp add: unfold Let_def)
    ultimately show ?thesis by simp
  qed
  from all show "voxel_inv h0 v (snd (create options ge))" by blast
  from all show "primitive (fst (snd (create options ge)))
           = (if fst (create options ge) = None then Some (nextHandle (snd ge)) else None)"
    by blast
  from all show "owned h0 (snd (create options ge))
           = (if fst (create options ge) = None then [nextHandle (snd ge)] else [])"
    by blast
qed

lemma voxel_run_inv: "voxel_inv h0 v ge \<Longrightarrow> voxel_inv h0 v (voxel_run ops ge)"
proof (induction ops arbitrary: ge)
  case Nil
  then show ?case by simp
next
  case (Cons oper ops)
  have "voxel_inv h0 v (voxel_step oper ge)"
    using Cons.prems by (cases oper) (simp_all add: create_inv(1) clear_inv(1))
  then show ?case by (simp add: Cons.IH)
qed

lemma clear_idem: "clear (clear ge) = clear ge"
  by (cases ge) (simp add: clear_def split: option.split)

definition exampleVoxelOptions :: VoxelGridOptions where
  "exampleVoxelOptions =
     \<lparr> lon = 116.65, lat = 31.65, baseHeight = 0, voxelSize = 1000,
       countX = 10, countY = 10, countZ = 10, color = Some (WithAlpha CYAN 0.02) \<rparr>"

definition emptyEngine :: engine_state where
  "emptyEngine =
     \<lparr> entitiesOf = (\<lambda>v. []), primitivesOf = (\<lambda>v. []), containerOf = (\<lambda>v. []),
       postRenderOf = (\<lambda>v. []), cameraFlights = (\<lambda>v. []), clockOf = (\<lambda>v. 0),
       objects = Map.empty, nextHandle = 1 \<rparr>"

text \<open>
  C8 fails on the code. The interface \<open>VoxelGridOptions\<close> declares \<open>color\<close> optional, and
  \<open>create\<close> passes it to \<open>fromColor\<close> unguarded. For the options
  \<open>{ lon: 116.65, lat: 31.65, baseHeight: 0, voxelSize: 1000, countX: 1, countY: 1,
  countZ: 1 }\<close>, whose counts are non-negative integers, \<open>create\<close> on a new instance
  throws in the first round of the loops: no primitive is made, assigned or added to the
  scene, where the claim has it build exactly one instance.
\<close>

theorem create_without_color_builds_nothing:
  "create \<lparr> lon = 116.65, lat = 31.65, baseHeight = 0, voxelSize = 1000,
            countX = 1, countY = 1, countZ = 1, color = None \<rparr>
          (\<lparr>viewer = 0, primitive = None\<rparr>, emptyEngine)
   = (Some ColorRequired, (\<lparr>viewer = 0, primitive = None\<rparr>, emptyEngine))"
  by (simp add: create_def clear_def forX.simps forY.simps forZ.simps
        voxelInstance_def fromColor_def Let_def)

text \<open>
  C9. Start from a new \<open>VoxelGrid\<close> on viewer \<open>v\<close>, in a state of the engine whose
  handles in the scene are all in use already. After every sequence of \<open>create\<close> and
  \<open>clear\<close> calls, the primitives of the instance that are in the scene are exactly the one
  its \<open>primitive\<close> field refers to, or none when the field is \<open>null\<close>: at most one. A
  further \<open>create\<close> leaves only the primitive it has just made when it returns, as it
  does for options with a colour, and none when it throws; a further \<open>clear\<close> leaves
  none and resets the field, and \<open>clear\<close> twice is \<open>clear\<close> once.
\<close>

theorem voxel_grid_owns_at_most_one_primitive:
  assumes "list_all (\<lambda>h. h < nextHandle e0) (primitivesOf e0 v)"
  shows "owned (nextHandle e0) (voxel_run ops (\<lparr>viewer = v, primitive = None\<rparr>, e0))
           = (case primitive (fst (voxel_run ops (\<lparr>viewer = v, primitive = None\<rparr>, e0))) of
                None \<Rightarrow> [] | Some p \<Rightarrow> [p])
       \<and> length (owned (nextHandle e0) (voxel_run ops (\<lparr>viewer = v, primitive = None\<rparr>, e0))) \<le> 1
       \<and> owned (nextHandle e0)
           (snd (create options (voxel_run ops (\<lparr>viewer = v, primitive = None\<rparr>, e0))))
           = (if fst (create options (voxel_run ops (\<lparr>viewer = v, primitive = None\<rparr>, e0))) = None
              then [nextHandle (snd (voxel_run ops (\<lparr>viewer = v, primitive = None\<rparr>, e0)))]
              else [])
       \<and> (color options \<noteq> None \<longrightarrow>
            owned (nextHandle e0)
              (snd (create options (voxel_run ops (\<lparr>viewer = v, primitive = None\<rparr>, e0))))
            = [nextHandle (snd (voxel_run ops (\<lparr>viewer = v, primitive = None\<rparr>, e0)))])
       \<and> owned (nextHandle e0) (clear (voxel_run ops (\<lparr>viewer = v, primitive = None\<rparr>, e0))) = []
       \<and> primitive (fst (clear (voxel_run ops (\<lparr>viewer = v, primitive = None\<rparr>, e0)))) = None
       \<and> clear (clear ge) = clear ge"
proof -
  let ?init = "(\<lparr>viewer = v, primitive = None\<rparr>, e0)"
  let ?s = "voxel_run ops ?init"
  have "filter (\<lambda>h. nextHandle e0 \<le> h) (primitivesOf e0 v) = []"
    using assms by (auto simp: list_all_iff filter_empty_conv)
  with assms have "voxel_inv (nextHandle e0) v ?init"
    by (simp add: voxel_inv_def owned_def)
  then have inv: "voxel_inv (nextHandle e0) v ?s"
    by (rule voxel_run_inv)
  then have own: "owned (nextHandle e0) ?s = (case primitive (fst ?s) of None \<Rightarrow> [] | Some p \<Rightarrow> [p])"
    by (simp add: voxel_inv_def)
  then have "length (owned (nextHandle e0) ?s) \<le> 1"
    by (simp split: option.split)
  moreover have made: "owned (nextHandle e0) (snd (create options ?s))
                 = (if fst (create options ?s) = None then [nextHandle (snd ?s)] else [])"
    using inv by (rule create_inv(3))
  moreover have "color options \<noteq> None \<longrightarrow>
      owned (nextHandle e0) (snd (create options ?s)) = [nextHandle (snd ?s)]"
  proof
    assume "color options \<noteq> None"
    then obtain c where "color options = Some c" by blast
    then have "fst (create options ?s) = None" by (rule create_returns_with_color)
    with made show "owned (nextHandle e0) (snd (create options ?s)) = [nextHandle (snd ?s)]"
      by simp
  qed
  moreover have "primitive (fst (clear ?s)) = None"
    using inv by (rule clear_inv(2))
  moreover from clear_inv(1) [OF inv] this have "owned (nextHandle e0) (clear ?s) = []"
    by (simp add: voxel_inv_def)
  ultimately show ?thesis
    using own clear_idem by blast
qed

theorem voxel_grid_owns_at_most_one_primitive_witness:
  "list_all (\<lambda>h. h < nextHandle (emptyEngine\<lparr>primitivesOf := (\<lambda>v. [1, 2]), nextHandle := 3\<rparr>))
            (primitivesOf (emptyEngine\<lparr>primitivesOf := (\<lambda>v. [1, 2]), nextHandle := 3\<rparr>) 0)
   \<and> length (owned 3
        (voxel_run [Create exampleVoxelOptions, Create exampleVoxelOptions, Clear, Clear,
                    Create (exampleVoxelOptions\<lparr>color := None\<rparr>), Create exampleVoxelOptions]
           (\<lparr>viewer = 0, primitive = None\<rparr>,
            emptyEngine\<lparr>primitivesOf := (\<lambda>v. [1, 2]), nextHandle := 3\<rparr>))) \<le> 1
   \<and> color exampleVoxelOptions \<noteq> None
   \<and> owned 3
        (snd (create exampleVoxelOptions
          (voxel_run [Create exampleVoxelOptions, Create exampleVoxelOptions, Clear, Clear,
                      Create (exampleVoxelOptions\<lparr>color := None\<rparr>), Create exampleVoxelOptions]
             (\<lparr>viewer = 0, primitive = None\<rparr>,
              emptyEngine\<lparr>primitivesOf := (\<lambda>v. [1, 2]), nextHandle := 3\<rparr>))))
       = [nextHandle (snd
          (voxel_run [Create exampleVoxelOptions, Create exampleVoxelOptions, Clear, Clear,
                      Create (exampleVoxelOptions\<lparr>color := None\<rparr>), Create exampleVoxelOptions]
             (\<lparr>viewer = 0, primitive = None\<rparr>,
              emptyEngine\<lparr>primitivesOf := (\<lambda>v. [1, 2]), nextHandle := 3\<rparr>)))]"
proof -
  let ?e0 = "emptyEngine\<lparr>primitivesOf := (\<lambda>v. [1, 2]), nextHandle := 3\<rparr>"
  let ?ops = "[Create exampleVoxelOptions, Create exampleVoxelOptions, Clear, Clear,
               Create (exampleVoxelOptions\<lparr>color := None\<rparr>), Create exampleVoxelOptions]"
  let ?s = "voxel_run ?ops (\<lparr>viewer = 0, primitive = None\<rparr>, ?e0)"
  have h: "list_all (\<lambda>h. h < nextHandle ?e0) (primitivesOf ?e0 0)"
    by (simp add: emptyEngine_def)
  have n: "nextHandle ?e0 = 3" by simp
  have c: "color exampleVoxelOptions \<noteq> None"
    by (simp add: exampleVoxelOptions_def)
  from voxel_grid_owns_at_most_one_primitive [OF h, of ?ops exampleVoxelOptions]
  have one: "length (owned (nextHandle ?e0) ?s) \<le> 1"
    and made: "color exampleVoxelOptions \<noteq> None \<longrightarrow>
         owned (nextHandle ?e0) (snd (create exampleVoxelOptions ?s)) = [nextHandle (snd ?s)]"
    by blast+
  from made c
  have "owned (nextHandle ?e0) (snd (create exampleVoxelOptions ?s)) = [nextHandle (snd ?s)]"
    by blast
  then have made3: "owned 3 (snd (create exampleVoxelOptions ?s)) = [nextHandle (snd ?s)]"
    by (simp only: n)
  from one have "length (owned 3 ?s) \<le> 1"
    by (simp only: n)
  with h c made3 show ?thesis by blast
qed

section \<open>The modules that draw on the map\<close>

text \<open>
  What the console is given: the level, and which message of the source it is (the
  messages are fixed texts, some with an identifier in them).
\<close>

datatype level = ConsoleError | ConsoleWarn | ConsoleLog

datatype message =
    MapInstanceMissing
  | PointExists string
  | DefaultImageUsed
  | DivPositionFailed
  | EffectExists string
  | LengthOrPositionRequired
  | ConeMissing string
  | ConeUpdated string
  | ConeUpdateFailed
  | ConePoseUpdated string
  | ConePoseFailed
  | HeightOrPositionRequired
  | PyramidMissing string
  | PyramidUpdated string
  | PyramidUpdateFailed
  | PyramidPoseUpdated string
  | PyramidPoseFailed

text \<open>
  The state the modules work on: the store, the engine, the console, and the two
  variables of the closure of \<open>gridConfig\<close>.
\<close>

record world =
  store :: mapStore
  engine :: engine_state
  console :: "(level \<times> message) list"
  gridEntities :: "handle list"
  voxelGrid :: "VoxelGrid option"

definition say :: "level \<Rightarrow> message \<Rightarrow> world \<Rightarrow> world" where
  "say lv msg w = w\<lparr>console := console w @ [(lv, msg)]\<rparr>"

subsection \<open>grid.ts\<close>

record GridOptions =
  west :: real
  south :: real
  east :: real
  north :: real
  step :: real
  height :: real

text \<open>
  The two \<open>for\<close> loops of \<open>createGridEffect\<close>. Nothing bounds the number of rounds
  (a \<open>step\<close> of 0 never leaves the loop; \<open>latitude\<close> and \<open>longitude\<close> are
  the loop variables \<open>lat\<close> and \<open>lon\<close>), so a loop that does not return has the value
  \<open>None\<close>.
\<close>

partial_function (option) forLat ::
  "handle \<Rightarrow> GridOptions \<Rightarrow> real \<Rightarrow> handle list \<times> engine_state \<Rightarrow> (handle list \<times> engine_state) option"
where
  "forLat m options latitude ge =
     (if latitude \<le> north options
      then (case entities_add m
                   \<lparr> entityId = None,
                     position = None,
                     kind = GridLine
                       (FromDegrees (Some (west options)) (Some latitude) (Some (height options)))
                       (FromDegrees (Some (east options)) (Some latitude) (Some (height options))),
                     sampled = None \<rparr> (snd ge) of
              (entity, e1) \<Rightarrow> forLat m options (latitude + step options) (fst ge @ [entity], e1))
      else Some ge)"

partial_function (option) forLon ::
  "handle \<Rightarrow> GridOptions \<Rightarrow> real \<Rightarrow> handle list \<times> engine_state \<Rightarrow> (handle list \<times> engine_state) option"
where
  "forLon m options longitude ge =
     (if longitude \<le> east options
      then (case entities_add m
                   \<lparr> entityId = None,
                     position = None,
                     kind = GridLine
                       (FromDegrees (Some longitude) (Some (south options)) (Some (height options)))
                       (FromDegrees (Some longitude) (Some (north options)) (Some (height options))),
                     sampled = None \<rparr> (snd ge) of
              (entity, e1) \<Rightarrow> forLon m options (longitude + step options) (fst ge @ [entity], e1))
      else Some ge)"

definition createGridEffect :: "GridOptions \<Rightarrow> world \<Rightarrow> (jsany \<times> world) option" where
  "createGridEffect options w =
     (case getMap (store w) of
        None \<Rightarrow> Some (Undefined, say ConsoleLog MapInstanceMissing w)
      | Some m \<Rightarrow>
          (case forLat m options (south options) (gridEntities w, engine w) of
             None \<Rightarrow> None
           | Some ge1 \<Rightarrow>
               (case forLon m options (west options) ge1 of
                  None \<Rightarrow> None
                | Some ge2 \<Rightarrow>
                    Some (Undefined, w\<lparr>gridEntities := fst ge2, engine := snd ge2\<rparr>))))"

definition clearAirGrid :: "world \<Rightarrow> jsany \<times> world" where
  "clearAirGrid w =
     (case getMap (store w) of
        None \<Rightarrow> (Undefined, say ConsoleLog MapInstanceMissing w)
      | Some m \<Rightarrow>
          (Undefined,
           w\<lparr>engine := fold (entities_remove m) (gridEntities w) (engine w),
             gridEntities := []\<rparr>))"

text \<open>
  \<open>create3DVoxelGrid\<close> makes a new \<open>VoxelGrid\<close> and calls its \<open>create\<close> with
  options that have a colour, so the call returns (\<open>create_returns_with_color\<close>) and
  the function goes on with the state it leaves.
\<close>

definition create3DVoxelGrid :: "world \<Rightarrow> jsany \<times> world" where
  "create3DVoxelGrid w =
     (case getMap (store w) of
        None \<Rightarrow> (Undefined, say ConsoleLog MapInstanceMissing w)
      | Some m \<Rightarrow>
          let e1 = (engine w)\<lparr>cameraFlights := (cameraFlights (engine w))
                     (m := cameraFlights (engine w) m
                             @ [FromDegrees (Some 116.7) (Some 31.7) (Some 30000)])\<rparr>;
              ge = snd (create exampleVoxelOptions (\<lparr>viewer = m, primitive = None\<rparr>, e1))
          in (Undefined, w\<lparr>voxelGrid := Some (fst ge), engine := snd ge\<rparr>))"

text \<open>Calling \<open>createGridEffect\<close> for each of a list of options, in order.\<close>

fun createGridEffects :: "GridOptions list \<Rightarrow> world \<Rightarrow> world option" where
  "createGridEffects [] w = Some w"
| "createGridEffects (options # rest) w =
     (case createGridEffect options w of
        None \<Rightarrow> None
      | Some (r, w1) \<Rightarrow> createGridEffects rest w1)"


subsection \<open>setPoint.ts\<close>

text \<open>
  What the source reads from its surroundings and the repository does not determine: the
  \<open>baseUrl\<close> handed to \<open>setPoint\<close>; the address \<open>new URL(...)\<close> yields for the point
  image (\<open>None\<close> when it throws); what \<open>scene.cartesianToCanvasCoordinates\<close> and
  \<open>getBoundingClientRect\<close> answer; the successive results of \<open>Math.random()\<close>; whether
  the engine throws on the values computed inside a \<open>try\<close> block; and \<open>setDroneTrail\<close> of
  setPath.ts, a module that is not among the sources.
\<close>

datatype canvas = CanvasThrows | CanvasNone | Canvas real real

datatype engine_request =
    ConeBuild WaveOptions
  | PyramidBuild WaveOptions
  | ConePose WaveOptions "real option" "real option"
  | PyramidPose WaveOptions "real option" "real option"

record environment =
  baseUrl :: string
  pointImage :: "string option"
  canvasCoordinates :: "handle \<Rightarrow> cartesian3 \<Rightarrow> canvas"
  boundingRect :: "handle \<Rightarrow> real \<times> real"
  mathRandom :: "nat \<Rightarrow> real"
  engineThrows :: "engine_request \<Rightarrow> bool"
  pathSetDroneTrail :: "string \<Rightarrow> cartesian3 \<Rightarrow> world \<Rightarrow> world"

definition setPointEntityByImg ::
  "string \<Rightarrow> real \<Rightarrow> real \<Rightarrow> string option \<Rightarrow> world \<Rightarrow> jsany \<times> world" where
  "setPointEntityByImg ident lng latitude name w =
     (case getMap (store w) of
        None \<Rightarrow> (Null, say ConsoleError MapInstanceMissing w)
      | Some m \<Rightarrow>
          if hasGraphicMap (store w) ident
          then (getGraphicMap (store w) ident, say ConsoleWarn (PointExists ident) w)
          else
            let pointParams =
                  \<lparr> entityId = None,
                    position = Some (FromDegrees (Some lng) (Some latitude) (Some 0)),
                    kind = ImagePoint (or_default name ImagePointName),
                    sampled = None \<rparr>;
                (pointEntity, e1) = entities_add m pointParams (engine w);
                w1 = w\<lparr>engine := e1\<rparr>;
                w2 = w1\<lparr>store := setGraphicMap ident (Ref pointEntity) (store w1)\<rparr>
            in (Ref pointEntity, w2))"

definition setPlacement :: "handle \<Rightarrow> placement \<Rightarrow> world \<Rightarrow> world" where
  "setPlacement divNode p w =
     (case objects (engine w) divNode of
        Some (DivObj d) \<Rightarrow>
          w\<lparr>engine := (engine w)\<lparr>objects := (objects (engine w))
                                      (divNode \<mapsto> DivObj (d\<lparr>divPlacement := p\<rparr>))\<rparr>\<rparr>
      | _ \<Rightarrow> w)"

definition updateDivPosition :: "environment \<Rightarrow> handle \<Rightarrow> cartesian3 \<Rightarrow> handle \<Rightarrow> world \<Rightarrow> world" where
  "updateDivPosition env m pos divNode w =
     (case canvasCoordinates env m pos of
        CanvasThrows \<Rightarrow> setPlacement divNode Hidden (say ConsoleWarn DivPositionFailed w)
      | CanvasNone \<Rightarrow> setPlacement divNode Hidden w
      | Canvas x y \<Rightarrow>
          (case boundingRect env divNode of
             (width, tall) \<Rightarrow> setPlacement divNode (Shown (x - width / 2) (y - tall - 10)) w))"

definition setPointPrimitiveByImg ::
  "environment \<Rightarrow> string \<Rightarrow> real \<Rightarrow> real \<Rightarrow> string option \<Rightarrow> world \<Rightarrow> jsany \<times> world" where
  "setPointPrimitiveByImg env ident lng latitude name w =
     (case getMap (store w) of
        None \<Rightarrow> (Null, say ConsoleError MapInstanceMissing w)
      | Some m \<Rightarrow>
          if hasGraphicMap (store w) ident
          then (getGraphicMap (store w) ident, say ConsoleWarn (PointExists ident) w)
          else
            let pos = FromDegrees (Some lng) (Some latitude) (Some 0);
                w1 = (case pointImage env of
                        None \<Rightarrow> say ConsoleWarn DefaultImageUsed w
                      | Some url \<Rightarrow> w);
                (divNode, e1) = new_object
                              (DivObj \<lparr> divId = ident @ ''_div'', divImage = pointImage env,
                                        divName = or_default name PointName,
                                        divPlacement = Unplaced \<rparr>) (engine w1);
                e2 = e1\<lparr>containerOf := (containerOf e1)(m := containerOf e1 m @ [divNode])\<rparr>;
                (listener, e3) = new_object (ListenerObj m divNode) e2;
                e4 = e3\<lparr>postRenderOf := (postRenderOf e3)(m := postRenderOf e3 m @ [listener])\<rparr>;
                w2 = updateDivPosition env m pos divNode (w1\<lparr>engine := e4\<rparr>);
                (result, e5) = new_object (DivPointObj ident pos divNode [listener]) (engine w2);
                w3 = w2\<lparr>engine := e5\<rparr>;
                w4 = w3\<lparr>store := setGraphicMap ident (Ref result) (store w3)\<rparr>
            in (Ref result, w4))"

text \<open>
  The \<open>destroy\<close> function of the object \<open>setPointPrimitiveByImg\<close> returns: it removes
  the listeners (a removal is taken to succeed), takes the \<open>div\<close> out of its parent and
  removes the identifier from the registry.
\<close>

fun removeListener :: "(handle \<rightharpoonup> object) \<Rightarrow> handle \<Rightarrow> engine_state \<Rightarrow> engine_state" where
  "removeListener objs listener e =
     (case objs listener of
        Some (ListenerObj v divNode) \<Rightarrow>
          e\<lparr>postRenderOf := (postRenderOf e)(v := remove1 listener (postRenderOf e v))\<rparr>
      | _ \<Rightarrow> e)"

definition destroy :: "handle \<Rightarrow> world \<Rightarrow> world" where
  "destroy result w =
     (case objects (engine w) result of
        Some (DivPointObj ident pos divNode listeners) \<Rightarrow>
          let e1 = fold (removeListener (objects (engine w))) listeners (engine w);
              e2 = e1\<lparr>containerOf := (\<lambda>v. remove1 divNode (containerOf e1 v))\<rparr>;
              w1 = w\<lparr>engine := e2\<rparr>
          in w1\<lparr>store := removeGraphicMap ident (store w1)\<rparr>
      | _ \<Rightarrow> w)"

text \<open>
  \<open>setBatchPointsByImg\<close>: the 10000 options with random positions, then for each option
  either the warning that its identifier is registered or a billboard, a label and the
  registration of the pair.
\<close>

definition billboardOptions :: "environment \<Rightarrow> real \<Rightarrow> real \<Rightarrow> (string \<times> cartesian3) list" where
  "billboardOptions env baseLon baseLat =
     map (\<lambda>i. (string_of_nat i,
                FromDegrees (Some (baseLon + mathRandom env (2 * i) * 1))
                            (Some (baseLat + mathRandom env (2 * i + 1) * 1)) (Some 0)))
         [0..<10000]"

fun addBatchPoints :: "string option \<Rightarrow> (string \<times> cartesian3) list \<Rightarrow> world \<Rightarrow> world" where
  "addBatchPoints name [] w = w"
| "addBatchPoints name ((optionId, pos) # rest) w =
     (if hasGraphicMap (store w) optionId
      then addBatchPoints name rest (say ConsoleWarn (PointExists optionId) w)
      else
        let (billboard, e1) = new_object (BillboardObj optionId pos) (engine w);
            (label, e2) = new_object (LabelObj pos (or_default name (PointNumber optionId))) e1;
            (pair, e3) = new_object (BillboardLabelObj billboard label) e2;
            w1 = w\<lparr>engine := e3\<rparr>
        in addBatchPoints name rest (w1\<lparr>store := setGraphicMap optionId (Ref pair) (store w1)\<rparr>))"

definition setBatchPointsByImg ::
  "environment \<Rightarrow> real \<Rightarrow> real \<Rightarrow> string option \<Rightarrow> world \<Rightarrow> jsany \<times> world" where
  "setBatchPointsByImg env lng latitude name w =
     (case getMap (store w) of
        None \<Rightarrow> (Null, say ConsoleError MapInstanceMissing w)
      | Some m \<Rightarrow>
          let options = billboardOptions env lng latitude;
              (billboardCollection, e1) = new_object BillboardCollectionObj (engine w);
              (labelCollection, e2) = new_object LabelCollectionObj e1;
              w1 = addBatchPoints name options (w\<lparr>engine := e2\<rparr>);
              e3 = primitives_add m labelCollection (primitives_add m billboardCollection (engine w1));
              (result, e4) = new_object (CollectionsObj billboardCollection labelCollection) e3
          in (Ref result, w1\<lparr>engine := e4\<rparr>))"

definition setPointByGlb ::
  "string \<Rightarrow> string \<Rightarrow> real \<Rightarrow> real \<Rightarrow> real option \<Rightarrow> real option \<Rightarrow> world \<Rightarrow> jsany \<times> world" where
  "setPointByGlb ident url lng latitude altitude heading w =
     (case getMap (store w) of
        None \<Rightarrow> (Null, say ConsoleError MapInstanceMissing w)
      | Some m \<Rightarrow>
          if hasGraphicMap (store w) ident
          then (getGraphicMap (store w) ident, say ConsoleWarn (PointExists ident) w)
          else
            let (modelEntity, e1) =
                  entities_add m
                    \<lparr> entityId = None,
                      position = Some (FromDegrees (Some lng) (Some latitude) altitude),
                      kind = GlbModel url (case heading of None \<Rightarrow> 0 | Some h \<Rightarrow> h),
                      sampled = None \<rparr> (engine w);
                w1 = w\<lparr>engine := e1\<rparr>;
                w2 = w1\<lparr>store := setGraphicMap ident (Ref modelEntity) (store w1)\<rparr>
            in (Ref modelEntity, w2))"

definition setDronePointByGlb ::
  "environment \<Rightarrow> string \<Rightarrow> real \<Rightarrow> real \<Rightarrow> real option \<Rightarrow> real option \<Rightarrow> world \<Rightarrow> jsany \<times> world" where
  "setDronePointByGlb env ident lng latitude altitude heading w =
     (case getMap (store w) of
        None \<Rightarrow> (Null, say ConsoleError MapInstanceMissing w)
      | Some m \<Rightarrow>
          if hasGraphicMap (store w) ident
          then (getGraphicMap (store w) ident, say ConsoleWarn (PointExists ident) w)
          else
            let altitudeOrZero = (case altitude of None \<Rightarrow> 0 | Some h \<Rightarrow> h);
                start = FromDegrees (Some lng) (Some latitude) (Some altitudeOrZero);
                drone = \<lparr> targetLng = lng, targetLat = latitude, targetHeight = altitudeOrZero,
                          droneEntity = None, currentPosition = start,
                          trailEntityId = ident @ ''_trail'' \<rparr>;
                (modelEntity, e1) = new_object (DroneObj drone) (engine w);
                (entity, e2) =
                  entities_add m
                    \<lparr> entityId = Some ident, position = Some start,
                      kind = DroneModel (baseUrl env @ ''/glb/drone.glb'') altitude,
                      sampled = Some (clockOf e1 m, start) \<rparr> e1;
                e3 = e2\<lparr>objects := (objects e2)(modelEntity \<mapsto> DroneObj (drone\<lparr>droneEntity := Some entity\<rparr>))\<rparr>;
                w1 = pathSetDroneTrail env ident start (w\<lparr>engine := e3\<rparr>);
                w2 = w1\<lparr>store := setGraphicMap ident (Ref modelEntity) (store w1)\<rparr>
            in (Ref modelEntity, w2))"

subsection \<open>geometry.ts\<close>

text \<open>
  \<open>options.color || '#00FFFF'\<close> and \<open>options.thickness || 0.3\<close>; an options object with
  no field; the \<open>_originalOptions\<close> and the \<open>appearance\<close> of whatever the registry holds
  (\<open>undefined\<close> when the value has no such property).
\<close>

definition colorOrDefault :: "string option \<Rightarrow> string" where
  "colorOrDefault c = (case c of None \<Rightarrow> ''#00FFFF'' | Some css \<Rightarrow> if css = [] then ''#00FFFF'' else css)"

definition thicknessOrDefault :: "real option \<Rightarrow> real" where
  "thicknessOrDefault t = (case t of None \<Rightarrow> 0.3 | Some x \<Rightarrow> if x = 0 then 0.3 else x)"

definition noOptions :: WaveOptions where
  "noOptions =
     \<lparr> optId = None, optPositions = None, optHeading = None, optPitch = None, optLength = None,
       optBottomRadius = None, optThickness = None, optColor = None, optHeight = None,
       optHorizontalAngle = None, optVerticalAngle = None \<rparr>"

definition originalOptionsOf :: "world \<Rightarrow> jsany \<Rightarrow> WaveOptions option" where
  "originalOptionsOf w v =
     (case v of
        Ref h \<Rightarrow> (case objects (engine w) h of
                    Some (WaveObj wave) \<Rightarrow> Some (originalOptions wave)
                  | _ \<Rightarrow> None)
      | _ \<Rightarrow> None)"

definition appearanceOf :: "world \<Rightarrow> jsany \<Rightarrow> wave_appearance option" where
  "appearanceOf w v =
     (case v of
        Ref h \<Rightarrow> (case objects (engine w) h of
                    Some (WaveObj wave) \<Rightarrow> waveAppearance wave
                  | Some (PrimitiveObj p) \<Rightarrow> Some (Reused (appearance p))
                  | _ \<Rightarrow> None)
      | _ \<Rightarrow> None)"

text \<open>\<open>map.scene.primitives.remove(v)\<close> for a value of the registry.\<close>

definition primitives_remove_value :: "handle \<Rightarrow> jsany \<Rightarrow> engine_state \<Rightarrow> engine_state" where
  "primitives_remove_value m v e = (case v of Ref h \<Rightarrow> primitives_remove m h e | _ \<Rightarrow> e)"

definition conicalWave ::
  "string \<Rightarrow> real list \<Rightarrow> real \<Rightarrow> real \<Rightarrow> real \<Rightarrow> real \<Rightarrow> real \<Rightarrow> string \<Rightarrow> world \<Rightarrow> jsany \<times> world" where
  "conicalWave ident positions heading pitch coneLength bottomRadius thickness colorCss w =
     (case getMap (store w) of
        None \<Rightarrow> (Null, say ConsoleError MapInstanceMissing w)
      | Some m \<Rightarrow>
          if truthy (getGraphicMap (store w) ident)
          then (Null, say ConsoleLog (EffectExists ident) w)
          else
            let options = noOptions
                  \<lparr> optId := Some ident, optPositions := Some positions, optHeading := Some heading,
                    optPitch := Some pitch, optLength := Some coneLength,
                    optBottomRadius := Some bottomRadius, optThickness := Some thickness,
                    optColor := Some colorCss \<rparr>;
                (prim, e1) =
                  new_object
                    (WaveObj \<lparr> waveGeometry = ConeGeometry (Some coneLength) (Some bottomRadius),
                               waveAppearance = Some (ConeMaterial (colorOrDefault (Some colorCss))
                                                        (thicknessOrDefault (Some thickness))),
                               waveMatrix = WaveMatrix (Some positions) (Some heading) (Some pitch)
                                              (Some coneLength),
                               originalOptions = options \<rparr>) (engine w);
                w1 = w\<lparr>engine := e1\<rparr>;
                w2 = w1\<lparr>store := setGraphicMap ident (Ref prim) (store w1)\<rparr>
            in (Ref prim, w2\<lparr>engine := primitives_add m prim (engine w2)\<rparr>))"

definition updateConeLengthOrPosition ::
  "environment \<Rightarrow> string \<Rightarrow> real option \<Rightarrow> real list option \<Rightarrow> world \<Rightarrow> jsany \<times> world" where
  "updateConeLengthOrPosition env ident newLength newPositions w =
     (case getMap (store w) of
        None \<Rightarrow> (Bool False, say ConsoleError MapInstanceMissing w)
      | Some m \<Rightarrow>
          if newLength = None \<and> newPositions = None
          then (Bool False, say ConsoleError LengthOrPositionRequired w)
          else
            let oldPrimitive = getGraphicMap (store w) ident in
            if \<not> truthy oldPrimitive
            then (Bool False, say ConsoleError (ConeMissing ident) w)
            else
              let spread = (case originalOptionsOf w oldPrimitive of
                              None \<Rightarrow> noOptions | Some original \<Rightarrow> original);
                  opts1 = (if newLength \<noteq> None then spread\<lparr>optLength := newLength\<rparr> else spread);
                  opts = (if newPositions \<noteq> None then opts1\<lparr>optPositions := newPositions\<rparr> else opts1)
              in
              if optPositions opts = None \<or> engineThrows env (ConeBuild opts)
              then (Bool False, say ConsoleError ConeUpdateFailed w)
              else
                let (newPrimitive, e1) =
                      new_object
                        (WaveObj \<lparr> waveGeometry = ConeGeometry (optLength opts) (optBottomRadius opts),
                                   waveAppearance = appearanceOf w oldPrimitive,
                                   waveMatrix = WaveMatrix (optPositions opts) (optHeading opts)
                                                  (optPitch opts) (optLength opts),
                                   originalOptions = opts \<rparr>) (engine w);
                    e2 = primitives_add m newPrimitive (primitives_remove_value m oldPrimitive e1);
                    w1 = w\<lparr>engine := e2\<rparr>;
                    w2 = w1\<lparr>store := setGraphicMap ident (Ref newPrimitive) (store w1)\<rparr>
                in (Bool True, say ConsoleLog (ConeUpdated ident) w2))"

text \<open>
  The writes of the two pose functions into the prim the registry holds:
  \<open>primitive.modelMatrix = M\<close>, and for the cone the two fields of its
  \<open>_originalOptions\<close>.
\<close>

definition setWave :: "jsany \<Rightarrow> (Wave \<Rightarrow> Wave) \<Rightarrow> world \<Rightarrow> world" where
  "setWave v change w =
     (case v of
        Ref h \<Rightarrow> (case objects (engine w) h of
                    Some (WaveObj wave) \<Rightarrow>
                      w\<lparr>engine := (engine w)\<lparr>objects := (objects (engine w))(h \<mapsto> WaveObj (change wave))\<rparr>\<rparr>
                  | _ \<Rightarrow> w)
      | _ \<Rightarrow> w)"

definition updateConePose ::
  "environment \<Rightarrow> string \<Rightarrow> real option \<Rightarrow> real option \<Rightarrow> world \<Rightarrow> jsany \<times> world" where
  "updateConePose env ident heading pitch w =
     (case getMap (store w) of
        None \<Rightarrow> (Bool False, say ConsoleError MapInstanceMissing w)
      | Some m \<Rightarrow>
          let prim = getGraphicMap (store w) ident in
          if \<not> truthy prim
          then (Bool False, say ConsoleError (ConeMissing ident) w)
          else
            (case originalOptionsOf w prim of
               None \<Rightarrow> (Bool False, say ConsoleError ConePoseFailed w)
             | Some opts \<Rightarrow>
                 if optPositions opts = None \<or> engineThrows env (ConePose opts heading pitch)
                 then (Bool False, say ConsoleError ConePoseFailed w)
                 else
                   let w1 = setWave prim
                              (\<lambda>wave. wave\<lparr> waveMatrix := WaveMatrix (optPositions opts) heading pitch
                                                             (optLength opts),
                                             originalOptions := opts\<lparr>optHeading := heading,
                                                                     optPitch := pitch\<rparr> \<rparr>) w;
                       w2 = w1\<lparr>store := setGraphicMap ident prim (store w1)\<rparr>
                   in (Bool True, say ConsoleLog (ConePoseUpdated ident) w2)))"

definition rectangularPyramidWave ::
  "string \<Rightarrow> real list \<Rightarrow> real \<Rightarrow> real \<Rightarrow> real \<Rightarrow> real \<Rightarrow> real \<Rightarrow> string \<Rightarrow> world \<Rightarrow> jsany \<times> world" where
  "rectangularPyramidWave ident positions heading pitch pyramidHeight horizontalAngle verticalAngle colorCss w =
     (case getMap (store w) of
        None \<Rightarrow> (Null, say ConsoleError MapInstanceMissing w)
      | Some m \<Rightarrow>
          if truthy (getGraphicMap (store w) ident)
          then (Null, say ConsoleLog (EffectExists ident) w)
          else
            let options = noOptions
                  \<lparr> optId := Some ident, optPositions := Some positions, optHeading := Some heading,
                    optPitch := Some pitch, optColor := Some colorCss, optHeight := Some pyramidHeight,
                    optHorizontalAngle := Some horizontalAngle,
                    optVerticalAngle := Some verticalAngle \<rparr>;
                (prim, e1) =
                  new_object
                    (WaveObj \<lparr> waveGeometry = PyramidGeometry (Some pyramidHeight) (Some horizontalAngle),
                               waveAppearance = Some (PyramidMaterial (colorOrDefault (Some colorCss))),
                               waveMatrix = WaveMatrix (Some positions) (Some heading) (Some pitch)
                                              (Some pyramidHeight),
                               originalOptions = options \<rparr>) (engine w);
                w1 = w\<lparr>engine := e1\<rparr>;
                w2 = w1\<lparr>store := setGraphicMap ident (Ref prim) (store w1)\<rparr>
            in (Ref prim, w2\<lparr>engine := primitives_add m prim (engine w2)\<rparr>))"

definition updateRectangularPyramidWavePose ::
  "environment \<Rightarrow> string \<Rightarrow> real option \<Rightarrow> real option \<Rightarrow> world \<Rightarrow> jsany \<times> world" where
  "updateRectangularPyramidWavePose env ident heading pitch w =
     (case getMap (store w) of
        None \<Rightarrow> (Bool False, say ConsoleError MapInstanceMissing w)
      | Some m \<Rightarrow>
          let prim = getGraphicMap (store w) ident in
          if \<not> truthy prim
          then (Bool False, say ConsoleError (PyramidMissing ident) w)
          else
            (case originalOptionsOf w prim of
               None \<Rightarrow> (Bool False, say ConsoleError PyramidPoseFailed w)
             | Some opts \<Rightarrow>
                 if optPositions opts = None \<or> engineThrows env (PyramidPose opts heading pitch)
                 then (Bool False, say ConsoleError PyramidPoseFailed w)
                 else
                   let w1 = setWave prim
                              (\<lambda>wave. wave\<lparr> waveMatrix := WaveMatrix (optPositions opts) heading pitch
                                                             (optHeight opts) \<rparr>) w
                   in (Bool True, say ConsoleLog (PyramidPoseUpdated ident) w1)))"

definition updateRectangularPyramidLengthOrPosition ::
  "environment \<Rightarrow> string \<Rightarrow> real option \<Rightarrow> real list option \<Rightarrow> world \<Rightarrow> jsany \<times> world" where
  "updateRectangularPyramidLengthOrPosition env ident newHeight newPositions w =
     (case getMap (store w) of
        None \<Rightarrow> (Bool False, say ConsoleError MapInstanceMissing w)
      | Some m \<Rightarrow>
          if newHeight = None \<and> newPositions = None
          then (Bool False, say ConsoleError HeightOrPositionRequired w)
          else
            let oldPrimitive = getGraphicMap (store w) ident in
            if \<not> truthy oldPrimitive
            then (Bool False, say ConsoleError (PyramidMissing ident) w)
            else
              let spread = (case originalOptionsOf w oldPrimitive of
                              None \<Rightarrow> noOptions | Some original \<Rightarrow> original);
                  opts1 = (if newHeight \<noteq> None then spread\<lparr>optHeight := newHeight\<rparr> else spread);
                  opts = (if newPositions \<noteq> None then opts1\<lparr>optPositions := newPositions\<rparr> else opts1)
              in
              if optPositions opts = None \<or> engineThrows env (PyramidBuild opts)
              then (Bool False, say ConsoleError PyramidUpdateFailed w)
              else
                let (newPrimitive, e1) =
                      new_object
                        (WaveObj \<lparr> waveGeometry = PyramidGeometry (optHeight opts)
                                                    (optHorizontalAngle opts),
                                   waveAppearance = Some (PyramidMaterial (colorOrDefault (optColor opts))),
                                   waveMatrix = WaveMatrix (optPositions opts) (optHeading opts)
                                                  (optPitch opts) (optHeight opts),
                                   originalOptions = opts \<rparr>) (engine w);
                    e2 = primitives_add m newPrimitive (primitives_remove_value m oldPrimitive e1);
                    w1 = w\<lparr>engine := e2\<rparr>;
                    w2 = w1\<lparr>store := setGraphicMap ident (Ref newPrimitive) (store w1)\<rparr>
                in (Bool True, say ConsoleLog (PyramidUpdated ident) w2))"

text \<open>
  What a returning loop or call does to the list \<open>gridEntities\<close> and to the entity
  collection of the map: both grow by the same new entities, whose handles were unused
  before.
\<close>

definition grows :: "handle \<Rightarrow> handle list \<times> engine_state \<Rightarrow> handle list \<times> engine_state \<Rightarrow> bool" where
  "grows m ge ge' =
     (\<exists>new. fst ge' = fst ge @ new
          \<and> entitiesOf (snd ge') m = entitiesOf (snd ge) m @ new
          \<and> distinct new
          \<and> list_all (\<lambda>h. nextHandle (snd ge) \<le> h \<and> h < nextHandle (snd ge')) new
          \<and> nextHandle (snd ge) \<le> nextHandle (snd ge'))"

lemma grows_refl: "grows m ge ge"
  by (simp add: grows_def)

lemma grows_trans:
  assumes "grows m a b" and "grows m b c"
  shows "grows m a c"
proof -
  from assms(1) obtain n1 where 1: "fst b = fst a @ n1"
    "entitiesOf (snd b) m = entitiesOf (snd a) m @ n1" "distinct n1"
    "list_all (\<lambda>h. nextHandle (snd a) \<le> h \<and> h < nextHandle (snd b)) n1"
    "nextHandle (snd a) \<le> nextHandle (snd b)"
    unfolding grows_def by blast
  from assms(2) obtain n2 where 2: "fst c = fst b @ n2"
    "entitiesOf (snd c) m = entitiesOf (snd b) m @ n2" "distinct n2"
    "list_all (\<lambda>h. nextHandle (snd b) \<le> h \<and> h < nextHandle (snd c)) n2"
    "nextHandle (snd b) \<le> nextHandle (snd c)"
    unfolding grows_def by blast
  have "fst c = fst a @ (n1 @ n2)" and "entitiesOf (snd c) m = entitiesOf (snd a) m @ (n1 @ n2)"
    using 1 2 by simp_all
  moreover have "distinct (n1 @ n2)"
    using 1(3,4) 2(3,4) by (fastforce simp: list_all_iff)
  moreover have "list_all (\<lambda>h. nextHandle (snd a) \<le> h \<and> h < nextHandle (snd c)) (n1 @ n2)"
    using 1(4,5) 2(4,5) by (fastforce simp: list_all_iff)
  moreover have "nextHandle (snd a) \<le> nextHandle (snd c)"
    using 1(5) 2(5) by simp
  ultimately show ?thesis
    unfolding grows_def by blast
qed

lemma grows_add:
  "entities_add m ent e = (h, e1) \<Longrightarrow> grows m (G, e) (G @ [h], e1)"
  by (auto simp: grows_def entities_add_def new_object_def)

lemma forLat_grows:
  assumes returns: "forLat m options latitude ge = Some ge'"
  shows "grows m ge ge'"
proof (rule forLat.raw_induct [where P = "\<lambda>m options latitude ge ge'. grows m ge ge'", OF _ returns],
       goal_cases)
  case (1 forLat m options latitude ge ge')
  show ?case
  proof (cases "latitude \<le> north options")
    case True
    with 1(2) obtain h e1 where
      add: "entities_add m
              \<lparr> entityId = None,
                position = None,
                kind = GridLine
                  (FromDegrees (Some (west options)) (Some latitude) (Some (height options)))
                  (FromDegrees (Some (east options)) (Some latitude) (Some (height options))),
                sampled = None \<rparr> (snd ge) = (h, e1)"
      and rest: "forLat m options (latitude + step options) (fst ge @ [h], e1) = Some ge'"
      by (auto split: prod.splits)
    from grows_add [OF add, of "fst ge"] have "grows m ge (fst ge @ [h], e1)" by simp
    moreover from 1(1) [OF rest] have "grows m (fst ge @ [h], e1) ge'" .
    ultimately show ?thesis by (rule grows_trans)
  next
    case False
    with 1(2) show ?thesis by (simp add: grows_refl)
  qed
qed

lemma forLon_grows:
  assumes returns: "forLon m options longitude ge = Some ge'"
  shows "grows m ge ge'"
proof (rule forLon.raw_induct [where P = "\<lambda>m options longitude ge ge'. grows m ge ge'", OF _ returns],
       goal_cases)
  case (1 forLon m options longitude ge ge')
  show ?case
  proof (cases "longitude \<le> east options")
    case True
    with 1(2) obtain h e1 where
      add: "entities_add m
              \<lparr> entityId = None,
                position = None,
                kind = GridLine
                  (FromDegrees (Some longitude) (Some (south options)) (Some (height options)))
                  (FromDegrees (Some longitude) (Some (north options)) (Some (height options))),
                sampled = None \<rparr> (snd ge) = (h, e1)"
      and rest: "forLon m options (longitude + step options) (fst ge @ [h], e1) = Some ge'"
      by (auto split: prod.splits)
    from grows_add [OF add, of "fst ge"] have "grows m ge (fst ge @ [h], e1)" by simp
    moreover from 1(1) [OF rest] have "grows m (fst ge @ [h], e1) ge'" .
    ultimately show ?thesis by (rule grows_trans)
  next
    case False
    with 1(2) show ?thesis by (simp add: grows_refl)
  qed
qed

text \<open>With a positive \<open>step\<close> both loops return.\<close>

lemma rounds_left:
  assumes "0 < (d::real)" and "x \<le> b"
  shows "nat \<lceil>(b - (x + d)) / d + 1\<rceil> < nat \<lceil>(b - x) / d + 1\<rceil>"
proof -
  from assms(1) have "(b - (x + d)) / d + 1 = (b - x) / d"
    by (simp add: field_simps)
  moreover have "\<lceil>(b - x) / d + 1\<rceil> = \<lceil>(b - x) / d\<rceil> + 1"
    by simp
  moreover from assms have "0 \<le> (b - x) / d" by simp
  then have "0 \<le> \<lceil>(b - x) / d\<rceil>" by simp
  ultimately show ?thesis by simp
qed

lemma forLat_returns:
  assumes "0 < step options"
  shows "\<exists>ge'. forLat m options latitude ge = Some ge'"
proof (induction "nat \<lceil>(north options - latitude) / step options + 1\<rceil>"
         arbitrary: latitude ge rule: less_induct)
  case less
  show ?case
  proof (cases "latitude \<le> north options")
    case True
    obtain h e1 where add: "entities_add m
        \<lparr> entityId = None, position = None,
          kind = GridLine
            (FromDegrees (Some (west options)) (Some latitude) (Some (height options)))
            (FromDegrees (Some (east options)) (Some latitude) (Some (height options))),
          sampled = None \<rparr> (snd ge) = (h, e1)"
      by (cases "entities_add m
        \<lparr> entityId = None, position = None,
          kind = GridLine
            (FromDegrees (Some (west options)) (Some latitude) (Some (height options)))
            (FromDegrees (Some (east options)) (Some latitude) (Some (height options))),
          sampled = None \<rparr> (snd ge)")
    from less [OF rounds_left [OF assms True]]
    obtain ge' where "forLat m options (latitude + step options) (fst ge @ [h], e1) = Some ge'"
      by blast
    with True add show ?thesis
      by (subst forLat.simps) simp
  next
    case False
    then show ?thesis by (subst forLat.simps) simp
  qed
qed

lemma forLon_returns:
  assumes "0 < step options"
  shows "\<exists>ge'. forLon m options longitude ge = Some ge'"
proof (induction "nat \<lceil>(east options - longitude) / step options + 1\<rceil>"
         arbitrary: longitude ge rule: less_induct)
  case less
  show ?case
  proof (cases "longitude \<le> east options")
    case True
    obtain h e1 where add: "entities_add m
        \<lparr> entityId = None, position = None,
          kind = GridLine
            (FromDegrees (Some longitude) (Some (south options)) (Some (height options)))
            (FromDegrees (Some longitude) (Some (north options)) (Some (height options))),
          sampled = None \<rparr> (snd ge) = (h, e1)"
      by (cases "entities_add m
        \<lparr> entityId = None, position = None,
          kind = GridLine
            (FromDegrees (Some longitude) (Some (south options)) (Some (height options)))
            (FromDegrees (Some longitude) (Some (north options)) (Some (height options))),
          sampled = None \<rparr> (snd ge)")
    from less [OF rounds_left [OF assms True]]
    obtain ge' where "forLon m options (longitude + step options) (fst ge @ [h], e1) = Some ge'"
      by blast
    with True add show ?thesis
      by (subst forLon.simps) simp
  next
    case False
    then show ?thesis by (subst forLon.simps) simp
  qed
qed

lemma createGridEffect_returns:
  "0 < step options \<Longrightarrow> \<exists>r. createGridEffect options w = Some r"
proof -
  assume pos: "0 < step options"
  show ?thesis
  proof (cases "getMap (store w)")
    case None
    then show ?thesis by (simp add: createGridEffect_def)
  next
    case (Some m)
    from forLat_returns [OF pos] obtain ge1 where
      "forLat m options (south options) (gridEntities w, engine w) = Some ge1" by blast
    moreover from forLon_returns [OF pos] obtain ge2 where
      "forLon m options (west options) ge1 = Some ge2" by blast
    ultimately show ?thesis using Some by (simp add: createGridEffect_def)
  qed
qed

lemma createGridEffect_grows:
  assumes "getMap (store w) = Some m" and "createGridEffect options w = Some (r, w')"
  shows "grows m (gridEntities w, engine w) (gridEntities w', engine w')"
    and "store w' = store w"
proof -
  from assms obtain ge1 ge2 where
    lat: "forLat m options (south options) (gridEntities w, engine w) = Some ge1"
    and lon: "forLon m options (west options) ge1 = Some ge2"
    and w': "w' = w\<lparr>gridEntities := fst ge2, engine := snd ge2\<rparr>"
    by (auto simp: createGridEffect_def split: option.splits)
  from forLat_grows [OF lat] forLon_grows [OF lon]
  have "grows m (gridEntities w, engine w) ge2" by (rule grows_trans)
  with w' show "grows m (gridEntities w, engine w) (gridEntities w', engine w')" by simp
  from w' show "store w' = store w" by simp
qed

lemma createGridEffects_grows:
  "getMap (store w) = Some m \<Longrightarrow> createGridEffects optionss w = Some w' \<Longrightarrow>
   grows m (gridEntities w, engine w) (gridEntities w', engine w')"
proof (induction optionss arbitrary: w)
  case Nil
  then show ?case by (simp add: grows_refl)
next
  case (Cons options rest)
  from Cons.prems(2) obtain r w1 where
    one: "createGridEffect options w = Some (r, w1)"
    and more: "createGridEffects rest w1 = Some w'"
    by (auto split: option.splits)
  from createGridEffect_grows [OF Cons.prems(1) one]
  have g1: "grows m (gridEntities w, engine w) (gridEntities w1, engine w1)"
    and "store w1 = store w" .
  with Cons.prems(1) have "getMap (store w1) = Some m" by simp
  from g1 Cons.IH [OF this more] show ?case by (rule grows_trans)
qed

lemma entitiesOf_fold_remove:
  "entitiesOf (fold (entities_remove m) hs e) m = fold remove1 hs (entitiesOf e m)"
  by (induction hs arbitrary: e) (simp_all add: entities_remove_def)

lemma fold_remove1_appended:
  "distinct new \<Longrightarrow> set new \<inter> set old = {} \<Longrightarrow> fold remove1 new (old @ new) = old"
proof (induction new)
  case Nil
  then show ?case by simp
next
  case (Cons h new)
  then have "h \<notin> set old" by auto
  then have "remove1 h (old @ h # new) = old @ new"
    by (simp add: remove1_append)
  with Cons show ?case by simp
qed

definition exampleEnvironment :: environment where
  "exampleEnvironment =
     \<lparr> baseUrl = ''/cesium'', pointImage = Some ''/assets/point.png'',
       canvasCoordinates = (\<lambda>m pos. Canvas 100 100), boundingRect = (\<lambda>divNode. (80, 40)),
       mathRandom = (\<lambda>i. 1 / 2), engineThrows = (\<lambda>request. False),
       pathSetDroneTrail = (\<lambda>droneId pos w. w) \<rparr>"

definition exampleWorld :: world where
  "exampleWorld =
     \<lparr> store = setMap (Some 0) useMapStore,
       engine = emptyEngine\<lparr>entitiesOf := (\<lambda>v. [1, 2]), nextHandle := 3\<rparr>,
       console = [], gridEntities = [], voxelGrid = None \<rparr>"

text \<open>
  C10. Let the map instance exist, let \<open>gridEntities\<close> be empty as it is when
  \<open>gridConfig\<close> starts, and let every handle in the entity collection of the map be in
  use. After any number of \<open>createGridEffect\<close> calls that have returned,
  \<open>clearAirGrid\<close> returns \<open>undefined\<close>, leaves \<open>gridEntities\<close> empty, and leaves the
  entity collection of the map as it was before the first call: every entity the calls
  added is removed, and nothing else is.
\<close>

theorem clearAirGrid_restores_entities:
  assumes "getMap (store w) = Some m"
      and "gridEntities w = []"
      and "list_all (\<lambda>h. h < nextHandle (engine w)) (entitiesOf (engine w) m)"
      and "createGridEffects optionss w = Some w'"
  shows "fst (clearAirGrid w') = Undefined
       \<and> gridEntities (snd (clearAirGrid w')) = []
       \<and> entitiesOf (engine (snd (clearAirGrid w'))) m = entitiesOf (engine w) m
       \<and> set (gridEntities w') \<inter> set (entitiesOf (engine (snd (clearAirGrid w'))) m) = {}"
proof -
  from createGridEffects_grows [OF assms(1,4)] assms(2)
  obtain new where new: "gridEntities w' = new"
    "entitiesOf (engine w') m = entitiesOf (engine w) m @ new" "distinct new"
    "list_all (\<lambda>h. nextHandle (engine w) \<le> h \<and> h < nextHandle (engine w')) new"
    unfolding grows_def by auto
  have disjoint: "set new \<inter> set (entitiesOf (engine w) m) = {}"
    using new(4) assms(3) by (fastforce simp: list_all_iff)
  have "store w' = store w"
    using assms(4)
  proof (induction optionss arbitrary: w)
    case Nil
    then show ?case by simp
  next
    case (Cons options rest)
    from Cons.prems obtain r w1 where
      one: "createGridEffect options w = Some (r, w1)"
      and more: "createGridEffects rest w1 = Some w'"
      by (auto split: option.splits)
    have "store w1 = store w"
    proof (cases "getMap (store w)")
      case None
      with one show ?thesis by (auto simp: createGridEffect_def say_def)
    next
      case (Some m')
      from createGridEffect_grows(2) [OF Some one] show ?thesis .
    qed
    with Cons.IH [OF more] show ?case by simp
  qed
  with assms(1) have map': "getMap (store w') = Some m" by simp
  have cleared: "snd (clearAirGrid w') =
      w'\<lparr>engine := fold (entities_remove m) new (engine w'), gridEntities := []\<rparr>"
    and ret: "fst (clearAirGrid w') = Undefined"
    using map' new(1) by (simp_all add: clearAirGrid_def)
  have "entitiesOf (engine (snd (clearAirGrid w'))) m = entitiesOf (engine w) m"
    using new(2,3) disjoint
    by (simp add: cleared entitiesOf_fold_remove fold_remove1_appended)
  with ret cleared new(1) disjoint show ?thesis by simp
qed

theorem clearAirGrid_restores_entities_witness:
  "getMap (store exampleWorld) = Some 0
   \<and> gridEntities exampleWorld = []
   \<and> list_all (\<lambda>h. h < nextHandle (engine exampleWorld)) (entitiesOf (engine exampleWorld) 0)
   \<and> (\<exists>w'. createGridEffects
               [\<lparr>west = 0, south = 0, east = 1, north = 1, step = 1, height = 100\<rparr>] exampleWorld = Some w'
            \<and> length (entitiesOf (engine w') 0) = 6
            \<and> gridEntities w' = [3, 4, 5, 6]
            \<and> gridEntities (snd (clearAirGrid w')) = []
            \<and> entitiesOf (engine (snd (clearAirGrid w'))) 0 = [1, 2])"
proof -
  let ?o = "\<lparr>west = 0, south = 0, east = 1, north = 1, step = 1, height = 100\<rparr>"
  have h1: "getMap (store exampleWorld) = Some 0"
    by (simp add: exampleWorld_def getMap_def setMap_def)
  have h2: "gridEntities exampleWorld = []"
    by (simp add: exampleWorld_def)
  have h3: "list_all (\<lambda>h. h < nextHandle (engine exampleWorld)) (entitiesOf (engine exampleWorld) 0)"
    by (simp add: exampleWorld_def emptyEngine_def)
  have before: "entitiesOf (engine exampleWorld) 0 = [1, 2]"
    by (simp add: exampleWorld_def emptyEngine_def)
  obtain w' where run: "createGridEffects [?o] exampleWorld = Some w'"
    and len: "length (entitiesOf (engine w') 0) = 6"
    and grid: "gridEntities w' = [3, 4, 5, 6]"
    by (simp add: createGridEffect_def getMap_def setMap_def forLat.simps forLon.simps
          entities_add_def new_object_def exampleWorld_def emptyEngine_def)
  from clearAirGrid_restores_entities [OF h1 h2 h3 run] before
  have "gridEntities (snd (clearAirGrid w')) = []"
    and "entitiesOf (engine (snd (clearAirGrid w'))) 0 = [1, 2]"
    by simp_all
  with h1 h2 h3 run len grid show ?thesis by blast
qed

text \<open>
  C4, as the code has it. When the map instance exists and the identifier is in the
  registry, each of \<open>setPointEntityByImg\<close>, \<open>setPointByGlb\<close> and \<open>setDronePointByGlb\<close>
  returns the registered value and does nothing but write a warning to the console: the
  engine state (no new scene object) and the store (the registry entry) are as before.
\<close>

theorem registered_point_is_returned:
  assumes "getMap (store w) = Some m" and "hasGraphicMap (store w) ident"
  shows "setPointEntityByImg ident lng latitude name w
           = (getGraphicMap (store w) ident, say ConsoleWarn (PointExists ident) w)
       \<and> setPointByGlb ident url lng latitude altitude heading w
           = (getGraphicMap (store w) ident, say ConsoleWarn (PointExists ident) w)
       \<and> setDronePointByGlb env ident lng latitude altitude heading w
           = (getGraphicMap (store w) ident, say ConsoleWarn (PointExists ident) w)
       \<and> engine (say ConsoleWarn (PointExists ident) w) = engine w
       \<and> store (say ConsoleWarn (PointExists ident) w) = store w"
  using assms
  by (simp add: setPointEntityByImg_def setPointByGlb_def setDronePointByGlb_def say_def)

theorem registered_point_is_returned_witness:
  "getMap (store (exampleWorld\<lparr>store := setGraphicMap ''p1'' (Ref 7) (store exampleWorld)\<rparr>)) = Some 0
   \<and> hasGraphicMap (store (exampleWorld\<lparr>store := setGraphicMap ''p1'' (Ref 7) (store exampleWorld)\<rparr>)) ''p1''
   \<and> fst (setPointEntityByImg ''p1'' 117 31 None
             (exampleWorld\<lparr>store := setGraphicMap ''p1'' (Ref 7) (store exampleWorld)\<rparr>)) = Ref 7
   \<and> engine (snd (setPointEntityByImg ''p1'' 117 31 None
                     (exampleWorld\<lparr>store := setGraphicMap ''p1'' (Ref 7) (store exampleWorld)\<rparr>)))
       = engine exampleWorld"
proof -
  let ?w = "exampleWorld\<lparr>store := setGraphicMap ''p1'' (Ref 7) (store exampleWorld)\<rparr>"
  have h1: "getMap (store ?w) = Some 0"
    by (simp add: exampleWorld_def getMap_def setMap_def setGraphicMap_def)
  have h2: "hasGraphicMap (store ?w) ''p1''"
    by (simp add: hasGraphicMap_def setGraphicMap_def)
  have g: "getGraphicMap (store ?w) ''p1'' = Ref 7"
    by (simp add: getGraphicMap_def setGraphicMap_def)
  from registered_point_is_returned [OF h1 h2, of 117 31 None]
  have "setPointEntityByImg ''p1'' 117 31 None ?w
          = (getGraphicMap (store ?w) ''p1'', say ConsoleWarn (PointExists ''p1'') ?w)"
    and "engine (say ConsoleWarn (PointExists ''p1'') ?w) = engine ?w"
    by blast+
  with h1 h2 g show ?thesis by simp
qed

text \<open>
  The claim as the specification words it fails when the store holds no map instance:
  the check of the map comes first, and the function returns \<open>null\<close> though the
  identifier is registered.
\<close>

theorem registered_point_without_map_counterexample:
  "hasGraphicMap (store (exampleWorld\<lparr>store := setGraphicMap ''p1'' (Ref 7) useMapStore\<rparr>)) ''p1''
   \<and> getGraphicMap (store (exampleWorld\<lparr>store := setGraphicMap ''p1'' (Ref 7) useMapStore\<rparr>)) ''p1'' = Ref 7
   \<and> fst (setPointEntityByImg ''p1'' 117 31 None
             (exampleWorld\<lparr>store := setGraphicMap ''p1'' (Ref 7) useMapStore\<rparr>)) = Null"
  by (simp add: setPointEntityByImg_def hasGraphicMap_def getGraphicMap_def setGraphicMap_def
        getMap_def useMapStore_def)

text \<open>
  C6. When the store holds no map instance, every function of setPoint.ts, geometry.ts
  and grid.ts writes one message to the console and returns: \<open>null\<close> from the functions
  that create, \<open>false\<close> from the functions that update, \<open>undefined\<close> from the functions
  of grid.ts. The state after the call differs from the state before it in the console
  only: the store (with the registry and the trails), the engine state, \<open>gridEntities\<close>
  and \<open>voxelGrid\<close> are as before.
\<close>

theorem without_map_only_logs:
  assumes "getMap (store w) = None"
  shows "setPointEntityByImg ident lng latitude name w = (Null, say ConsoleError MapInstanceMissing w)
       \<and> setPointPrimitiveByImg env ident lng latitude name w
           = (Null, say ConsoleError MapInstanceMissing w)
       \<and> setBatchPointsByImg env lng latitude name w = (Null, say ConsoleError MapInstanceMissing w)
       \<and> setPointByGlb ident url lng latitude altitude heading w
           = (Null, say ConsoleError MapInstanceMissing w)
       \<and> setDronePointByGlb env ident lng latitude altitude heading w
           = (Null, say ConsoleError MapInstanceMissing w)
       \<and> conicalWave ident positions angle pitch coneLength bottomRadius thickness colorCss w
           = (Null, say ConsoleError MapInstanceMissing w)
       \<and> updateConeLengthOrPosition env ident newLength newPositions w
           = (Bool False, say ConsoleError MapInstanceMissing w)
       \<and> updateConePose env ident heading pitch' w
           = (Bool False, say ConsoleError MapInstanceMissing w)
       \<and> rectangularPyramidWave ident positions angle pitch pyramidHeight horizontalAngle
             verticalAngle colorCss w
           = (Null, say ConsoleError MapInstanceMissing w)
       \<and> updateRectangularPyramidWavePose env ident heading pitch' w
           = (Bool False, say ConsoleError MapInstanceMissing w)
       \<and> updateRectangularPyramidLengthOrPosition env ident newLength newPositions w
           = (Bool False, say ConsoleError MapInstanceMissing w)
       \<and> createGridEffect options w = Some (Undefined, say ConsoleLog MapInstanceMissing w)
       \<and> clearAirGrid w = (Undefined, say ConsoleLog MapInstanceMissing w)
       \<and> create3DVoxelGrid w = (Undefined, say ConsoleLog MapInstanceMissing w)
       \<and> store (say lv MapInstanceMissing w) = store w
       \<and> engine (say lv MapInstanceMissing w) = engine w
       \<and> gridEntities (say lv MapInstanceMissing w) = gridEntities w
       \<and> voxelGrid (say lv MapInstanceMissing w) = voxelGrid w
       \<and> console (say lv MapInstanceMissing w) = console w @ [(lv, MapInstanceMissing)]"
proof -
  have points: "setPointEntityByImg ident lng latitude name w = (Null, say ConsoleError MapInstanceMissing w)"
    "setPointPrimitiveByImg env ident lng latitude name w = (Null, say ConsoleError MapInstanceMissing w)"
    "setBatchPointsByImg env lng latitude name w = (Null, say ConsoleError MapInstanceMissing w)"
    "setPointByGlb ident url lng latitude altitude heading w = (Null, say ConsoleError MapInstanceMissing w)"
    "setDronePointByGlb env ident lng latitude altitude heading w
       = (Null, say ConsoleError MapInstanceMissing w)"
    using assms
    by (simp_all add: setPointEntityByImg_def setPointPrimitiveByImg_def setBatchPointsByImg_def
          setPointByGlb_def setDronePointByGlb_def)
  have cones: "conicalWave ident positions angle pitch coneLength bottomRadius thickness colorCss w
       = (Null, say ConsoleError MapInstanceMissing w)"
    "updateConeLengthOrPosition env ident newLength newPositions w
       = (Bool False, say ConsoleError MapInstanceMissing w)"
    "updateConePose env ident heading pitch' w = (Bool False, say ConsoleError MapInstanceMissing w)"
    using assms
    by (simp_all add: conicalWave_def updateConeLengthOrPosition_def updateConePose_def)
  have pyramids: "rectangularPyramidWave ident positions angle pitch pyramidHeight horizontalAngle
         verticalAngle colorCss w = (Null, say ConsoleError MapInstanceMissing w)"
    "updateRectangularPyramidWavePose env ident heading pitch' w
       = (Bool False, say ConsoleError MapInstanceMissing w)"
    "updateRectangularPyramidLengthOrPosition env ident newLength newPositions w
       = (Bool False, say ConsoleError MapInstanceMissing w)"
    using assms
    by (simp_all add: rectangularPyramidWave_def updateRectangularPyramidWavePose_def
          updateRectangularPyramidLengthOrPosition_def)
  have grids: "createGridEffect options w = Some (Undefined, say ConsoleLog MapInstanceMissing w)"
    "clearAirGrid w = (Undefined, say ConsoleLog MapInstanceMissing w)"
    "create3DVoxelGrid w = (Undefined, say ConsoleLog MapInstanceMissing w)"
    using assms
    by (simp_all add: createGridEffect_def clearAirGrid_def create3DVoxelGrid_def)
  have frame: "store (say lv MapInstanceMissing w) = store w"
    "engine (say lv MapInstanceMissing w) = engine w"
    "gridEntities (say lv MapInstanceMissing w) = gridEntities w"
    "voxelGrid (say lv MapInstanceMissing w) = voxelGrid w"
    "console (say lv MapInstanceMissing w) = console w @ [(lv, MapInstanceMissing)]"
    by (simp_all add: say_def)
  from points cones pyramids grids frame show ?thesis by simp
qed

theorem without_map_only_logs_witness:
  "getMap (store (exampleWorld\<lparr>store := useMapStore\<rparr>)) = None
   \<and> conicalWave ''c1'' [117, 31, 100] 0 90 500 50 0.3 ''#00FFFF'' (exampleWorld\<lparr>store := useMapStore\<rparr>)
       = (Null, say ConsoleError MapInstanceMissing (exampleWorld\<lparr>store := useMapStore\<rparr>))
   \<and> updateConeLengthOrPosition exampleEnvironment ''c1'' (Some 600) None (exampleWorld\<lparr>store := useMapStore\<rparr>)
       = (Bool False, say ConsoleError MapInstanceMissing (exampleWorld\<lparr>store := useMapStore\<rparr>))
   \<and> createGridEffect \<lparr>west = 0, south = 0, east = 1, north = 1, step = 1, height = 100\<rparr>
         (exampleWorld\<lparr>store := useMapStore\<rparr>)
       = Some (Undefined, say ConsoleLog MapInstanceMissing (exampleWorld\<lparr>store := useMapStore\<rparr>))
   \<and> engine (say ConsoleError MapInstanceMissing (exampleWorld\<lparr>store := useMapStore\<rparr>))
       = engine (exampleWorld\<lparr>store := useMapStore\<rparr>)
   \<and> store (say ConsoleError MapInstanceMissing (exampleWorld\<lparr>store := useMapStore\<rparr>)) = useMapStore"
proof -
  let ?w = "exampleWorld\<lparr>store := useMapStore\<rparr>"
  have h: "getMap (store ?w) = None"
    by (simp add: getMap_def useMapStore_def)
  have s: "store ?w = useMapStore" by simp
  from without_map_only_logs
         [OF h, where ident = "''c1''" and positions = "[117, 31, 100]" and angle = 0
            and pitch = 90 and coneLength = 500 and bottomRadius = 50 and thickness = "0.3"
            and colorCss = "''#00FFFF''" and env = exampleEnvironment and newLength = "Some 600"
            and newPositions = None and lv = ConsoleError
            and options = "\<lparr>west = 0, south = 0, east = 1, north = 1, step = 1, height = 100\<rparr>"]
       h s
  show ?thesis by simp
qed

section \<open>The trail of a drone\<close>

text \<open>
  The function that maintains the list of trail points is in setPath.ts, which is not
  among the sources; setPoint.ts calls it and the store keeps the retention time
  (\<open>trailTime\<close>, in seconds, \<open>-1\<close> in the configuration for an unbounded trail).
\<close>

record 'p sample =
  samplePosition :: 'p
  sampleTime :: real

text \<open>
  Modelled from the spec: the maintenance of the trail point list of setPath.ts, which
  is missing from the sources. In the words of the specification: append a point if it
  is farther than a fixed distance from the last point, then drop points older than a
  configured retention window, or retain forever if retention is negative. A point is
  older than the window when its age, the current time minus its time, exceeds the
  retention. The specification does not say what happens when the list has no last
  point; the model appends then.
\<close>

definition maintainTrail ::
  "('p \<Rightarrow> 'p \<Rightarrow> real) \<Rightarrow> real \<Rightarrow> real \<Rightarrow> real \<Rightarrow> 'p \<Rightarrow> 'p sample list \<Rightarrow> 'p sample list" where
  "maintainTrail distance threshold retention now p trail =
     (let appended =
            (if trail = [] \<or> threshold < distance (samplePosition (last trail)) p
             then trail @ [\<lparr>samplePosition = p, sampleTime = now\<rparr>]
             else trail)
      in if retention < 0 then appended
         else filter (\<lambda>s. now - sampleTime s \<le> retention) appended)"

text \<open>
  C2. For a trail with a last point: the new sample is appended if and only if its
  distance from the last point exceeds the threshold; after that every point whose age
  exceeds the retention is dropped and every other point is kept, in order; and with a
  negative retention nothing is dropped.
\<close>

theorem maintainTrail_appends_then_drops:
  assumes "trail \<noteq> []"
  shows "maintainTrail distance threshold retention now p trail
           = filter (\<lambda>s. retention < 0 \<or> now - sampleTime s \<le> retention)
               (trail @ (if threshold < distance (samplePosition (last trail)) p
                         then [\<lparr>samplePosition = p, sampleTime = now\<rparr>] else []))
       \<and> (retention < 0 \<longrightarrow>
            maintainTrail distance threshold retention now p trail
              = (if threshold < distance (samplePosition (last trail)) p
                 then trail @ [\<lparr>samplePosition = p, sampleTime = now\<rparr>] else trail))"
proof (cases "retention < 0")
  case True
  with assms show ?thesis by (simp add: maintainTrail_def)
next
  case False
  with assms show ?thesis by (simp add: maintainTrail_def)
qed

theorem maintainTrail_appends_then_drops_witness:
  "[\<lparr>samplePosition = 0, sampleTime = 0\<rparr>, \<lparr>samplePosition = 5, sampleTime = 20\<rparr>] \<noteq> []
   \<and> maintainTrail (\<lambda>a b. \<bar>b - a\<bar>) 1 30 40 (7::real)
        [\<lparr>samplePosition = 0, sampleTime = 0\<rparr>, \<lparr>samplePosition = 5, sampleTime = 20\<rparr>]
       = [\<lparr>samplePosition = 5, sampleTime = 20\<rparr>, \<lparr>samplePosition = 7, sampleTime = 40\<rparr>]
   \<and> maintainTrail (\<lambda>a b. \<bar>b - a\<bar>) 1 (- 1) 40 (5.5::real)
        [\<lparr>samplePosition = 0, sampleTime = 0\<rparr>, \<lparr>samplePosition = 5, sampleTime = 20\<rparr>]
       = [\<lparr>samplePosition = 0, sampleTime = 0\<rparr>, \<lparr>samplePosition = 5, sampleTime = 20\<rparr>]"
proof -
  let ?trail = "[\<lparr>samplePosition = 0::real, sampleTime = 0\<rparr>, \<lparr>samplePosition = 5, sampleTime = 20\<rparr>]"
  have h: "?trail \<noteq> []" by simp
  from maintainTrail_appends_then_drops [OF h, of "\<lambda>a b. \<bar>b - a\<bar>" 1 30 40 7]
       maintainTrail_appends_then_drops [OF h, of "\<lambda>a b. \<bar>b - a\<bar>" 1 "- 1" 40 "5.5"]
  show ?thesis by simp
qed

end
